theory Spec2Isabelle
  imports Main "HOL-Library.AList"
begin

section \<open>Python values used by \<^verbatim>\<open>platforms.py\<close>\<close>

text \<open>
  A Python dictionary is an association list with pairwise distinct keys, kept in the
  order in which the keys were first inserted. Assigning to a key that is present
  overwrites its value in place, assigning to a new key appends it. No property below
  depends on the iteration order, only on every key being visited once.
\<close>

type_synonym ('k, 'v) dict = "('k \<times> 'v) list"

definition dict_keys :: "('k, 'v) dict \<Rightarrow> 'k list" where
  "dict_keys d = map fst d"

definition dict_contains :: "'k \<Rightarrow> ('k, 'v) dict \<Rightarrow> bool" where
  "dict_contains k d = (k \<in> set (dict_keys d))"

definition dict_setitem :: "'k \<Rightarrow> 'v \<Rightarrow> ('k, 'v) dict \<Rightarrow> ('k, 'v) dict" where
  "dict_setitem k v d = AList.update k v d"

text \<open>An exception is its class name and its argument; an uncaught one ends the module.\<close>

datatype exn = Exn (exn_class: string) (exn_arg: string)

definition dict_getitem :: "(string, 'v) dict \<Rightarrow> string \<Rightarrow> exn + 'v" where
  "dict_getitem d k = (case map_of d k of None \<Rightarrow> Inl (Exn ''KeyError'' k) | Some v \<Rightarrow> Inr v)"

text \<open>A dictionary display \<^verbatim>\<open>{k1 : v1, k2 : v2, ...}\<close> stores its entries from left to right.\<close>

definition dict_literal :: "('k \<times> 'v) list \<Rightarrow> ('k, 'v) dict" where
  "dict_literal es = fold (\<lambda>(k, v). dict_setitem k v) es []"

section \<open>The platform dictionary\<close>

text \<open>
  Each platform is a dictionary of build settings with the keys \<^verbatim>\<open>mcu\<close>,
  \<^verbatim>\<open>programmer\<close>, \<^verbatim>\<open>board_directory\<close> and \<^verbatim>\<open>defines\<close>; the header comment also
  documents an optional \<^verbatim>\<open>squeeze\<close> list, which no built-in platform sets.
\<close>

record profile =
  mcu :: string
  programmer :: string
  board_directory :: string
  "defines" :: "string list"
  squeeze :: "string list option"

type_synonym registry = "(string, profile) dict"

text \<open>
  The two characters backslash and double quote, written \<^verbatim>\<open>\\\"\<close> inside the
  single-quoted Python literals of the source.
\<close>

abbreviation bsq :: string where
  "bsq \<equiv> [CHR 0x5C, CHR 0x22]"

text \<open>The values of the display bound to \<^verbatim>\<open>platforms\<close>, one constant for each.\<close>

definition platform_mighty_one_hyper_zmax :: profile where
  "platform_mighty_one_hyper_zmax =
     \<lparr>mcu = ''atmega1280'', programmer = ''stk500v1'',
      board_directory = ''mighty_one'',
      defines = [
        ''BUILD_STATS'', ''AUTO_LEVEL'', ''USE_ZMAX_HOME'', ''PSTOP_ZMIN_LEVEL'',
        ''AUTO_LEVEL_IGNORE_ZMIN_ONBUILD'', ''HAS_RGB_LED'', ''EEPROM_MENU_ENABLE'',
        ''COOLING_FAN_PWM'', ''PLATFORM_SPLASH1_MSG='' @ bsq @ ''SF-Replicator1'' @ bsq,
        ''PLATFORM_THE_REPLICATOR_STR='' @ bsq @ ''Replicator 1'' @ bsq],
      squeeze = None\<rparr>"

definition platform_mighty_one_hyper :: profile where
  "platform_mighty_one_hyper =
     \<lparr>mcu = ''atmega1280'', programmer = ''stk500v1'',
      board_directory = ''mighty_one'',
      defines = [
        ''BUILD_STATS'', ''AUTO_LEVEL'', ''PSTOP_ZMIN_LEVEL'',
        ''AUTO_LEVEL_IGNORE_ZMIN_ONBUILD'', ''HAS_RGB_LED'', ''EEPROM_MENU_ENABLE'',
        ''COOLING_FAN_PWM'', ''PLATFORM_SPLASH1_MSG='' @ bsq @ ''SF-Replicator1'' @ bsq,
        ''PLATFORM_THE_REPLICATOR_STR='' @ bsq @ ''Replicator 1'' @ bsq],
      squeeze = None\<rparr>"

definition platform_mighty_one :: profile where
  "platform_mighty_one =
     \<lparr>mcu = ''atmega1280'', programmer = ''stk500v1'',
      board_directory = ''mighty_one'',
      defines = [
        ''HAS_RGB_LED'', ''EEPROM_MENU_ENABLE'', ''COOLING_FAN_PWM'',
        ''PLATFORM_SPLASH1_MSG='' @ bsq @ ''SF-Replicator1'' @ bsq,
        ''PLATFORM_THE_REPLICATOR_STR='' @ bsq @ ''Replicator 1'' @ bsq],
      squeeze = None\<rparr>"

definition platform_mighty_one_architect_hyper_zmax :: profile where
  "platform_mighty_one_architect_hyper_zmax =
     \<lparr>mcu = ''atmega1280'', programmer = ''stk500v1'',
      board_directory = ''mighty_one'',
      defines = [
        ''AUTO_LEVEL'', ''PSTOP_ZMIN_LEVEL'', ''AUTO_LEVEL_IGNORE_ZMIN_ONBUILD'',
        ''SINGLE_EXTRUDER'', ''BUILD_STATS'', ''EEPROM_MENU_ENABLE'',
        ''PLATFORM_HBP_PRESENT=0'', ''COOLING_FAN_PWM'', ''PLATFORM_EXTRUDERS=1'',
        ''USE_ZMAX_HOME'', ''PLATFORM_SPLASH1_MSG='' @ bsq @ ''SF-Architect'' @ bsq,
        ''PLATFORM_THE_REPLICATOR_STR='' @ bsq @ ''Architect'' @ bsq],
      squeeze = None\<rparr>"

definition platform_mighty_one_architect_hyper :: profile where
  "platform_mighty_one_architect_hyper =
     \<lparr>mcu = ''atmega1280'', programmer = ''stk500v1'',
      board_directory = ''mighty_one'',
      defines = [
        ''AUTO_LEVEL'', ''PSTOP_ZMIN_LEVEL'', ''AUTO_LEVEL_IGNORE_ZMIN_ONBUILD'',
        ''SINGLE_EXTRUDER'', ''BUILD_STATS'', ''EEPROM_MENU_ENABLE'',
        ''PLATFORM_HBP_PRESENT=0'', ''COOLING_FAN_PWM'', ''PLATFORM_EXTRUDERS=1'',
        ''PLATFORM_SPLASH1_MSG='' @ bsq @ ''SF-Architect'' @ bsq,
        ''PLATFORM_THE_REPLICATOR_STR='' @ bsq @ ''Architect'' @ bsq],
      squeeze = None\<rparr>"

definition platform_mighty_one_architect :: profile where
  "platform_mighty_one_architect =
     \<lparr>mcu = ''atmega1280'', programmer = ''stk500v1'',
      board_directory = ''mighty_one'',
      defines = [
        ''SINGLE_EXTRUDER'', ''BUILD_STATS'', ''EEPROM_MENU_ENABLE'',
        ''PLATFORM_HBP_PRESENT=0'', ''COOLING_FAN_PWM'', ''PLATFORM_EXTRUDERS=1'',
        ''PLATFORM_SPLASH1_MSG='' @ bsq @ ''SF-Architect'' @ bsq,
        ''PLATFORM_THE_REPLICATOR_STR='' @ bsq @ ''Architect'' @ bsq],
      squeeze = None\<rparr>"

definition platform_mighty_one_corexy_hyper_zmax :: profile where
  "platform_mighty_one_corexy_hyper_zmax =
     \<lparr>mcu = ''atmega1280'', programmer = ''stk500v1'',
      board_directory = ''mighty_one'',
      defines = [
        ''AUTO_LEVEL'', ''PSTOP_ZMIN_LEVEL'', ''AUTO_LEVEL_IGNORE_ZMIN_ONBUILD'', ''CORE_XY'',
        ''HEATERS_ON_STEROIDS'', ''BUILD_STATS'', ''USE_ZMAX_HOME'', ''COOLING_FAN_PWM'',
        ''HAS_RGB_LED'', ''EEPROM_MENU_ENABLE'',
        ''PLATFORM_SPLASH1_MSG='' @ bsq @ ''SF-Rep1 CoreXY'' @ bsq,
        ''PLATFORM_THE_REPLICATOR_STR='' @ bsq @ ''Rep1 CoreXY'' @ bsq],
      squeeze = None\<rparr>"

definition platform_mighty_one_corexy_hyper :: profile where
  "platform_mighty_one_corexy_hyper =
     \<lparr>mcu = ''atmega1280'', programmer = ''stk500v1'',
      board_directory = ''mighty_one'',
      defines = [
        ''AUTO_LEVEL'', ''PSTOP_ZMIN_LEVEL'', ''AUTO_LEVEL_IGNORE_ZMIN_ONBUILD'', ''CORE_XY'',
        ''HEATERS_ON_STEROIDS'', ''BUILD_STATS'', ''COOLING_FAN_PWM'', ''HAS_RGB_LED'',
        ''EEPROM_MENU_ENABLE'', ''PLATFORM_SPLASH1_MSG='' @ bsq @ ''SF-Rep1 CoreXY'' @ bsq,
        ''PLATFORM_THE_REPLICATOR_STR='' @ bsq @ ''Rep1 CoreXY'' @ bsq],
      squeeze = None\<rparr>"

definition platform_mighty_one_corexy :: profile where
  "platform_mighty_one_corexy =
     \<lparr>mcu = ''atmega1280'', programmer = ''stk500v1'',
      board_directory = ''mighty_one'',
      defines = [
        ''CORE_XY'', ''HEATERS_ON_STEROIDS'', ''BUILD_STATS'', ''COOLING_FAN_PWM'',
        ''HAS_RGB_LED'', ''EEPROM_MENU_ENABLE'',
        ''PLATFORM_SPLASH1_MSG='' @ bsq @ ''SF-Rep1 CoreXY'' @ bsq,
        ''PLATFORM_THE_REPLICATOR_STR='' @ bsq @ ''Rep1 CoreXY'' @ bsq],
      squeeze = None\<rparr>"

definition platform_mighty_one_2560_zmax :: profile where
  "platform_mighty_one_2560_zmax =
     \<lparr>mcu = ''atmega2560'', programmer = ''stk500v2'',
      board_directory = ''mighty_one'',
      defines = [
        ''BUILD_STATS'', ''ALTERNATE_UART'', ''AUTO_LEVEL'', ''AUTO_LEVEL_IGNORE_ZMIN_ONBUILD'',
        ''PSTOP_ZMIN_LEVEL'', ''HAS_RGB_LED'', ''COOLING_FAN_PWM'', ''USE_ZMAX_HOME'',
        ''PLATFORM_SPLASH1_MSG='' @ bsq @ ''SF-Replicator1'' @ bsq,
        ''PLATFORM_THE_REPLICATOR_STR='' @ bsq @ ''Replicator 1'' @ bsq, ''EEPROM_MENU_ENABLE'',
        ''RGB_LED_MENU''],
      squeeze = None\<rparr>"

definition platform_mighty_one_2560 :: profile where
  "platform_mighty_one_2560 =
     \<lparr>mcu = ''atmega2560'', programmer = ''stk500v2'',
      board_directory = ''mighty_one'',
      defines = [
        ''BUILD_STATS'', ''ALTERNATE_UART'', ''AUTO_LEVEL'', ''AUTO_LEVEL_IGNORE_ZMIN_ONBUILD'',
        ''PSTOP_ZMIN_LEVEL'', ''HAS_RGB_LED'', ''COOLING_FAN_PWM'',
        ''PLATFORM_SPLASH1_MSG='' @ bsq @ ''SF-Replicator1'' @ bsq,
        ''PLATFORM_THE_REPLICATOR_STR='' @ bsq @ ''Replicator 1'' @ bsq, ''EEPROM_MENU_ENABLE'',
        ''RGB_LED_MENU''],
      squeeze = None\<rparr>"

definition platform_CTC_BizerMod_2560_zmax :: profile where
  "platform_CTC_BizerMod_2560_zmax =
     \<lparr>mcu = ''atmega2560'', programmer = ''stk500v2'',
      board_directory = ''mighty_one'',
      defines = [
        ''BUILD_STATS'', ''ALTERNATE_UART'', ''AUTO_LEVEL'', ''USE_ZMAX_HOME'',
        ''PSTOP_ZMIN_LEVEL'', ''AUTO_LEVEL_IGNORE_ZMIN_ONBUILD'', ''COOLING_FAN_PWM'',
        ''PLATFORM_SPLASH1_MSG='' @ bsq @ ''SF-CTC Bizer'' @ bsq,
        ''PLATFORM_THE_REPLICATOR_STR='' @ bsq @ ''CTC Bizer v2'' @ bsq, ''EEPROM_MENU_ENABLE''],
      squeeze = None\<rparr>"

definition platform_CTC_BizerMod_2560 :: profile where
  "platform_CTC_BizerMod_2560 =
     \<lparr>mcu = ''atmega2560'', programmer = ''stk500v2'',
      board_directory = ''mighty_one'',
      defines = [
        ''BUILD_STATS'', ''ALTERNATE_UART'', ''AUTO_LEVEL'', ''PSTOP_ZMIN_LEVEL'',
        ''AUTO_LEVEL_IGNORE_ZMIN_ONBUILD'', ''COOLING_FAN_PWM'',
        ''PLATFORM_SPLASH1_MSG='' @ bsq @ ''SF-CTC Bizer'' @ bsq,
        ''PLATFORM_THE_REPLICATOR_STR='' @ bsq @ ''CTC Bizer v2'' @ bsq, ''EEPROM_MENU_ENABLE''],
      squeeze = None\<rparr>"

definition platform_CTC_BondtechDualDrive_2560 :: profile where
  "platform_CTC_BondtechDualDrive_2560 =
     \<lparr>mcu = ''atmega2560'', programmer = ''stk500v2'',
      board_directory = ''mighty_one'',
      defines = [
        ''BUILD_STATS'', ''ALTERNATE_UART'', ''AUTO_LEVEL'', ''PSTOP_ZMIN_LEVEL'',
        ''AUTO_LEVEL_IGNORE_ZMIN_ONBUILD'', ''COOLING_FAN_PWM'',
        ''PLATFORM_SPLASH1_MSG='' @ bsq @ ''SF-CTC Bizer '' @ bsq, ''USE_ZMAX_HOME'',
        ''PLATFORM_THE_REPLICATOR_STR='' @ bsq @ ''CTC Bizer v2'' @ bsq,
        ''PLATFORM_TOOLHEAD_OFFSET_X=3624'',
        ''PLATFORM_AXIS_STEPS_PER_MM={94139704, 94139704, 400000000, 147773066, 147773066}'',
        ''EEPROM_MENU_ENABLE''],
      squeeze = None\<rparr>"

definition platform_mighty_one_2560_corexy_zmax :: profile where
  "platform_mighty_one_2560_corexy_zmax =
     \<lparr>mcu = ''atmega2560'', programmer = ''stk500v2'',
      board_directory = ''mighty_one'',
      defines = [
        ''CORE_XY'', ''BUILD_STATS'', ''ALTERNATE_UART'', ''AUTO_LEVEL_IGNORE_ZMIN_ONBUILD'',
        ''HEATERS_ON_STEROIDS'', ''AUTO_LEVEL'', ''HAS_RGB_LED'', ''PSTOP_ZMIN_LEVEL'',
        ''COOLING_FAN_PWM'', ''USE_ZMAX_HOME'',
        ''PLATFORM_SPLASH1_MSG='' @ bsq @ ''SF-Rep1 CoreXY'' @ bsq,
        ''PLATFORM_THE_REPLICATOR_STR='' @ bsq @ ''Rep1 CoreXY'' @ bsq, ''EEPROM_MENU_ENABLE'',
        ''RGB_LED_MENU''],
      squeeze = None\<rparr>"

definition platform_mighty_one_2560_corexy :: profile where
  "platform_mighty_one_2560_corexy =
     \<lparr>mcu = ''atmega2560'', programmer = ''stk500v2'',
      board_directory = ''mighty_one'',
      defines = [
        ''CORE_XY'', ''BUILD_STATS'', ''ALTERNATE_UART'', ''AUTO_LEVEL_IGNORE_ZMIN_ONBUILD'',
        ''HEATERS_ON_STEROIDS'', ''AUTO_LEVEL'', ''HAS_RGB_LED'', ''PSTOP_ZMIN_LEVEL'',
        ''COOLING_FAN_PWM'', ''PLATFORM_SPLASH1_MSG='' @ bsq @ ''SF-Rep1 CoreXY'' @ bsq,
        ''PLATFORM_THE_REPLICATOR_STR='' @ bsq @ ''Rep1 CoreXY'' @ bsq, ''EEPROM_MENU_ENABLE'',
        ''RGB_LED_MENU''],
      squeeze = None\<rparr>"

definition platform_mighty_one_2560_clone_r1_zmax :: profile where
  "platform_mighty_one_2560_clone_r1_zmax =
     \<lparr>mcu = ''atmega2560'', programmer = ''stk500v2'',
      board_directory = ''mighty_one'',
      defines = [
        ''CORE_XY'', ''BUILD_STATS'', ''ALTERNATE_UART'', ''AUTO_LEVEL_IGNORE_ZMIN_ONBUILD'',
        ''HEATERS_ON_STEROIDS'', ''AUTO_LEVEL'', ''HAS_RGB_LED'', ''PSTOP_ZMIN_LEVEL'',
        ''COOLING_FAN_PWM'', ''USE_ZMAX_HOME'',
        ''PLATFORM_SPLASH1_MSG='' @ bsq @ ''SF-Clone R1 '' @ bsq,
        ''PLATFORM_THE_REPLICATOR_STR='' @ bsq @ ''CloneR1'' @ bsq,
        ''PLATFORM_X_OFFSET_STEPS=14444L'', ''PLATFORM_Y_OFFSET_STEPS=8667L'',
        ''PLATFORM_AXIS_LENGTHS={300L, 195L, 210L, 100000L, 100000L}'',
        ''PLATFORM_AXIS_STEPS_PER_MM={88888889, 88888889, 400000000, 96275202, 96275202}'',
        ''EEPROM_MENU_ENABLE'', ''CLONE_R1'', ''RGB_LED_MENU''],
      squeeze = None\<rparr>"

definition platform_mighty_one_2560_clone_r1 :: profile where
  "platform_mighty_one_2560_clone_r1 =
     \<lparr>mcu = ''atmega2560'', programmer = ''stk500v2'',
      board_directory = ''mighty_one'',
      defines = [
        ''CORE_XY'', ''BUILD_STATS'', ''ALTERNATE_UART'', ''AUTO_LEVEL_IGNORE_ZMIN_ONBUILD'',
        ''HEATERS_ON_STEROIDS'', ''AUTO_LEVEL'', ''HAS_RGB_LED'', ''PSTOP_ZMIN_LEVEL'',
        ''COOLING_FAN_PWM'', ''PLATFORM_SPLASH1_MSG='' @ bsq @ ''SF-Clone R1 '' @ bsq,
        ''PLATFORM_THE_REPLICATOR_STR='' @ bsq @ ''CloneR1'' @ bsq,
        ''PLATFORM_X_OFFSET_STEPS=14444L'', ''PLATFORM_Y_OFFSET_STEPS=8667L'',
        ''PLATFORM_AXIS_LENGTHS={300L, 195L, 210L, 100000L, 100000L}'',
        ''PLATFORM_AXIS_STEPS_PER_MM={88888889, 88888889, 400000000, 96275202, 96275202}'',
        ''EEPROM_MENU_ENABLE'', ''CLONE_R1'', ''RGB_LED_MENU''],
      squeeze = None\<rparr>"

definition platform_mighty_one_2560_max31855_corexy_zmax :: profile where
  "platform_mighty_one_2560_max31855_corexy_zmax =
     \<lparr>mcu = ''atmega2560'', programmer = ''stk500v2'',
      board_directory = ''mighty_one'',
      defines = [
        ''CORE_XY'', ''BUILD_STATS'', ''ALTERNATE_UART'', ''USE_ZMAX_HOME'', ''HAS_RGB_LED'',
        ''HEATERS_ON_STEROIDS'', ''AUTO_LEVEL'', ''MAX31855'', ''PSTOP_ZMIN_LEVEL'',
        ''COOLING_FAN_PWM'', ''PLATFORM_SPLASH1_MSG='' @ bsq @ ''SF-Rep1 CoreXY'' @ bsq,
        ''PLATFORM_THE_REPLICATOR_STR='' @ bsq @ ''Rep1 CoreXY'' @ bsq, ''EEPROM_MENU_ENABLE'',
        ''RGB_LED_MENU'', ''AUTO_LEVEL_IGNORE_ZMIN_ONBUILD''],
      squeeze = None\<rparr>"

definition platform_mighty_one_2560_max31855_corexy :: profile where
  "platform_mighty_one_2560_max31855_corexy =
     \<lparr>mcu = ''atmega2560'', programmer = ''stk500v2'',
      board_directory = ''mighty_one'',
      defines = [
        ''CORE_XY'', ''BUILD_STATS'', ''ALTERNATE_UART'', ''HAS_RGB_LED'',
        ''HEATERS_ON_STEROIDS'', ''AUTO_LEVEL'', ''MAX31855'', ''PSTOP_ZMIN_LEVEL'',
        ''COOLING_FAN_PWM'', ''PLATFORM_SPLASH1_MSG='' @ bsq @ ''SF-Rep1 CoreXY'' @ bsq,
        ''PLATFORM_THE_REPLICATOR_STR='' @ bsq @ ''Rep1 CoreXY'' @ bsq, ''EEPROM_MENU_ENABLE'',
        ''RGB_LED_MENU'', ''AUTO_LEVEL_IGNORE_ZMIN_ONBUILD''],
      squeeze = None\<rparr>"

definition platform_mighty_one_2560_max31855_zmax :: profile where
  "platform_mighty_one_2560_max31855_zmax =
     \<lparr>mcu = ''atmega2560'', programmer = ''stk500v2'',
      board_directory = ''mighty_one'',
      defines = [
        ''BUILD_STATS'', ''ALTERNATE_UART'', ''MAX31855'', ''USE_ZMAX_HOME'',
        ''COOLING_FAN_PWM'', ''AUTO_LEVEL'', ''PSTOP_ZMIN_LEVEL'', ''HAS_RGB_LED'',
        ''AUTO_LEVEL_IGNORE_ZMIN_ONBUILD'',
        ''PLATFORM_SPLASH1_MSG='' @ bsq @ ''SF-Replicator1'' @ bsq,
        ''PLATFORM_THE_REPLICATOR_STR='' @ bsq @ ''Replicator 1'' @ bsq, ''EEPROM_MENU_ENABLE'',
        ''RGB_LED_MENU''],
      squeeze = None\<rparr>"

definition platform_mighty_one_2560_max31855 :: profile where
  "platform_mighty_one_2560_max31855 =
     \<lparr>mcu = ''atmega2560'', programmer = ''stk500v2'',
      board_directory = ''mighty_one'',
      defines = [
        ''BUILD_STATS'', ''ALTERNATE_UART'', ''MAX31855'', ''COOLING_FAN_PWM'', ''AUTO_LEVEL'',
        ''PSTOP_ZMIN_LEVEL'', ''HAS_RGB_LED'', ''AUTO_LEVEL_IGNORE_ZMIN_ONBUILD'',
        ''PLATFORM_SPLASH1_MSG='' @ bsq @ ''SF-Replicator1'' @ bsq,
        ''PLATFORM_THE_REPLICATOR_STR='' @ bsq @ ''Replicator 1'' @ bsq, ''EEPROM_MENU_ENABLE'',
        ''RGB_LED_MENU''],
      squeeze = None\<rparr>"

definition platform_mighty_two_hyper_zmax :: profile where
  "platform_mighty_two_hyper_zmax =
     \<lparr>mcu = ''atmega1280'', programmer = ''stk500v1'',
      board_directory = ''mighty_two'',
      defines = [
        ''AUTO_LEVEL'', ''PSTOP_ZMIN_LEVEL'', ''AUTO_LEVEL_IGNORE_ZMIN_ONBUILD'',
        ''SINGLE_EXTRUDER'', ''BUILD_STATS'', ''HAS_RGB_LED'', ''COOLING_FAN_PWM'',
        ''USE_ZMAX_HOME'', ''PLATFORM_SPLASH1_MSG='' @ bsq @ ''SF-Replicator2'' @ bsq,
        ''PLATFORM_TOOLHEAD_OFFSET_X=3100'',
        ''PLATFORM_THE_REPLICATOR_STR='' @ bsq @ ''Replicator 2'' @ bsq,
        ''PLATFORM_MACHINE_ID=0xB015'', ''PLATFORM_X_OFFSET_STEPS=13463L'',
        ''PLATFORM_Y_OFFSET_STEPS=6643L'', ''PLATFORM_HBP_PRESENT=0'',
        ''PLATFORM_AXIS_LENGTHS={285L, 152L, 155L, 100000L, 100000L}'',
        ''PLATFORM_AXIS_STEPS_PER_MM={88573186, 88573186, 400000000, 96275202, 96275202}'',
        ''EEPROM_MENU_ENABLE''],
      squeeze = None\<rparr>"

definition platform_mighty_two_hyper :: profile where
  "platform_mighty_two_hyper =
     \<lparr>mcu = ''atmega1280'', programmer = ''stk500v1'',
      board_directory = ''mighty_two'',
      defines = [
        ''AUTO_LEVEL'', ''PSTOP_ZMIN_LEVEL'', ''AUTO_LEVEL_IGNORE_ZMIN_ONBUILD'',
        ''SINGLE_EXTRUDER'', ''BUILD_STATS'', ''HAS_RGB_LED'', ''COOLING_FAN_PWM'',
        ''PLATFORM_SPLASH1_MSG='' @ bsq @ ''SF-Replicator2'' @ bsq,
        ''PLATFORM_TOOLHEAD_OFFSET_X=3100'',
        ''PLATFORM_THE_REPLICATOR_STR='' @ bsq @ ''Replicator 2'' @ bsq,
        ''PLATFORM_MACHINE_ID=0xB015'', ''PLATFORM_X_OFFSET_STEPS=13463L'',
        ''PLATFORM_Y_OFFSET_STEPS=6643L'', ''PLATFORM_HBP_PRESENT=0'',
        ''PLATFORM_AXIS_LENGTHS={285L, 152L, 155L, 100000L, 100000L}'',
        ''PLATFORM_AXIS_STEPS_PER_MM={88573186, 88573186, 400000000, 96275202, 96275202}'',
        ''EEPROM_MENU_ENABLE''],
      squeeze = None\<rparr>"

definition platform_mighty_two_corexy_hyper_zmax :: profile where
  "platform_mighty_two_corexy_hyper_zmax =
     \<lparr>mcu = ''atmega1280'', programmer = ''stk500v1'',
      board_directory = ''mighty_two'',
      defines = [
        ''AUTO_LEVEL'', ''PSTOP_ZMIN_LEVEL'', ''AUTO_LEVEL_IGNORE_ZMIN_ONBUILD'', ''CORE_XY'',
        ''SINGLE_EXTRUDER'', ''BUILD_STATS'', ''HAS_RGB_LED'', ''COOLING_FAN_PWM'',
        ''USE_ZMAX_HOME'', ''PLATFORM_SPLASH1_MSG='' @ bsq @ ''SF-Rep2 CoreXY'' @ bsq,
        ''PLATFORM_TOOLHEAD_OFFSET_X=3100'',
        ''PLATFORM_THE_REPLICATOR_STR='' @ bsq @ ''Rep2 CoreXY'' @ bsq,
        ''PLATFORM_MACHINE_ID=0xB015'', ''PLATFORM_X_OFFSET_STEPS=13463L'',
        ''PLATFORM_Y_OFFSET_STEPS=6643L'',
        ''PLATFORM_AXIS_LENGTHS={285L, 152L, 155L, 100000L, 100000L}'',
        ''PLATFORM_AXIS_STEPS_PER_MM={88573186, 88573186, 400000000, 96275202, 96275202}'',
        ''EEPROM_MENU_ENABLE''],
      squeeze = None\<rparr>"

definition platform_mighty_two_corexy_hyper :: profile where
  "platform_mighty_two_corexy_hyper =
     \<lparr>mcu = ''atmega1280'', programmer = ''stk500v1'',
      board_directory = ''mighty_two'',
      defines = [
        ''AUTO_LEVEL'', ''PSTOP_ZMIN_LEVEL'', ''AUTO_LEVEL_IGNORE_ZMIN_ONBUILD'', ''CORE_XY'',
        ''SINGLE_EXTRUDER'', ''BUILD_STATS'', ''HAS_RGB_LED'', ''COOLING_FAN_PWM'',
        ''PLATFORM_SPLASH1_MSG='' @ bsq @ ''SF-Rep2 CoreXY'' @ bsq,
        ''PLATFORM_TOOLHEAD_OFFSET_X=3100'',
        ''PLATFORM_THE_REPLICATOR_STR='' @ bsq @ ''Rep2 CoreXY'' @ bsq,
        ''PLATFORM_MACHINE_ID=0xB015'', ''PLATFORM_X_OFFSET_STEPS=13463L'',
        ''PLATFORM_Y_OFFSET_STEPS=6643L'',
        ''PLATFORM_AXIS_LENGTHS={285L, 152L, 155L, 100000L, 100000L}'',
        ''PLATFORM_AXIS_STEPS_PER_MM={88573186, 88573186, 400000000, 96275202, 96275202}'',
        ''EEPROM_MENU_ENABLE''],
      squeeze = None\<rparr>"

definition platform_mighty_two :: profile where
  "platform_mighty_two =
     \<lparr>mcu = ''atmega1280'', programmer = ''stk500v1'',
      board_directory = ''mighty_two'',
      defines = [
        ''SINGLE_EXTRUDER'', ''BUILD_STATS'', ''HAS_RGB_LED'', ''COOLING_FAN_PWM'',
        ''PLATFORM_SPLASH1_MSG='' @ bsq @ ''SF-Replicator2'' @ bsq,
        ''PLATFORM_TOOLHEAD_OFFSET_X=3100'',
        ''PLATFORM_THE_REPLICATOR_STR='' @ bsq @ ''Replicator 2'' @ bsq,
        ''PLATFORM_MACHINE_ID=0xB015'', ''PLATFORM_X_OFFSET_STEPS=13463L'',
        ''PLATFORM_Y_OFFSET_STEPS=6643L'', ''PLATFORM_HBP_PRESENT=0'',
        ''PLATFORM_AXIS_LENGTHS={285L, 152L, 155L, 100000L, 100000L}'',
        ''PLATFORM_AXIS_STEPS_PER_MM={88573186, 88573186, 400000000, 96275202, 96275202}'',
        ''EEPROM_MENU_ENABLE''],
      squeeze = None\<rparr>"

definition platform_mighty_two_corexy :: profile where
  "platform_mighty_two_corexy =
     \<lparr>mcu = ''atmega1280'', programmer = ''stk500v1'',
      board_directory = ''mighty_two'',
      defines = [
        ''CORE_XY'', ''SINGLE_EXTRUDER'', ''BUILD_STATS'', ''HAS_RGB_LED'', ''COOLING_FAN_PWM'',
        ''PLATFORM_SPLASH1_MSG='' @ bsq @ ''SF-Rep2 CoreXY'' @ bsq,
        ''PLATFORM_TOOLHEAD_OFFSET_X=3100'',
        ''PLATFORM_THE_REPLICATOR_STR='' @ bsq @ ''Rep2 CoreXY'' @ bsq,
        ''PLATFORM_MACHINE_ID=0xB015'', ''PLATFORM_X_OFFSET_STEPS=13463L'',
        ''PLATFORM_Y_OFFSET_STEPS=6643L'',
        ''PLATFORM_AXIS_LENGTHS={285L, 152L, 155L, 100000L, 100000L}'',
        ''PLATFORM_AXIS_STEPS_PER_MM={88573186, 88573186, 400000000, 96275202, 96275202}'',
        ''EEPROM_MENU_ENABLE''],
      squeeze = None\<rparr>"

definition platform_mighty_two_2560_zmax :: profile where
  "platform_mighty_two_2560_zmax =
     \<lparr>mcu = ''atmega2560'', programmer = ''stk500v2'',
      board_directory = ''mighty_two'',
      defines = [
        ''SINGLE_EXTRUDER'', ''BUILD_STATS'', ''ALTERNATE_UART'', ''COOLING_FAN_PWM'',
        ''USE_ZMAX_HOME'', ''PLATFORM_SPLASH1_MSG='' @ bsq @ ''SF-Replicator2'' @ bsq,
        ''PLATFORM_TOOLHEAD_OFFSET_X=3100'',
        ''PLATFORM_THE_REPLICATOR_STR='' @ bsq @ ''Replicator 2'' @ bsq,
        ''PLATFORM_MACHINE_ID=0xB015'', ''PLATFORM_X_OFFSET_STEPS=13463L'',
        ''PLATFORM_Y_OFFSET_STEPS=6643L'', ''PLATFORM_HBP_PRESENT=0'',
        ''PLATFORM_AXIS_LENGTHS={285L, 152L, 155L, 100000L, 100000L}'',
        ''PLATFORM_AXIS_STEPS_PER_MM={88573186, 88573186, 400000000, 96275202, 96275202}'',
        ''AUTO_LEVEL'', ''AUTO_LEVEL_IGNORE_ZMIN_ONBUILD'', ''PSTOP_ZMIN_LEVEL'',
        ''HAS_RGB_LED'', ''EEPROM_MENU_ENABLE'', ''RGB_LED_MENU''],
      squeeze = None\<rparr>"

definition platform_mighty_two_2560 :: profile where
  "platform_mighty_two_2560 =
     \<lparr>mcu = ''atmega2560'', programmer = ''stk500v2'',
      board_directory = ''mighty_two'',
      defines = [
        ''SINGLE_EXTRUDER'', ''BUILD_STATS'', ''ALTERNATE_UART'', ''COOLING_FAN_PWM'',
        ''PLATFORM_SPLASH1_MSG='' @ bsq @ ''SF-Replicator2'' @ bsq,
        ''PLATFORM_TOOLHEAD_OFFSET_X=3100'',
        ''PLATFORM_THE_REPLICATOR_STR='' @ bsq @ ''Replicator 2'' @ bsq,
        ''PLATFORM_MACHINE_ID=0xB015'', ''PLATFORM_X_OFFSET_STEPS=13463L'',
        ''PLATFORM_Y_OFFSET_STEPS=6643L'', ''PLATFORM_HBP_PRESENT=0'',
        ''PLATFORM_AXIS_LENGTHS={285L, 152L, 155L, 100000L, 100000L}'',
        ''PLATFORM_AXIS_STEPS_PER_MM={88573186, 88573186, 400000000, 96275202, 96275202}'',
        ''AUTO_LEVEL'', ''AUTO_LEVEL_IGNORE_ZMIN_ONBUILD'', ''PSTOP_ZMIN_LEVEL'',
        ''HAS_RGB_LED'', ''EEPROM_MENU_ENABLE'', ''RGB_LED_MENU''],
      squeeze = None\<rparr>"

definition platform_mighty_twox_hyper_zmax :: profile where
  "platform_mighty_twox_hyper_zmax =
     \<lparr>mcu = ''atmega1280'', programmer = ''stk500v1'',
      board_directory = ''mighty_two'',
      defines = [
        ''AUTO_LEVEL'', ''PSTOP_ZMIN_LEVEL'', ''AUTO_LEVEL_IGNORE_ZMIN_ONBUILD'',
        ''BUILD_STATS'', ''HAS_RGB_LED'', ''COOLING_FAN_PWM'', ''USE_ZMAX_HOME'',
        ''PLATFORM_SPLASH1_MSG='' @ bsq @ ''SF-Rep 2X'' @ bsq,
        ''PLATFORM_TOOLHEAD_OFFSET_X=3100'',
        ''PLATFORM_THE_REPLICATOR_STR='' @ bsq @ ''Replicator 2X'' @ bsq,
        ''PLATFORM_MACHINE_ID=0xB017'', ''PLATFORM_X_OFFSET_STEPS=13463L'',
        ''PLATFORM_Y_OFFSET_STEPS=6643L'',
        ''PLATFORM_AXIS_LENGTHS={246L, 152L, 155L, 100000L, 100000L}'',
        ''PLATFORM_AXIS_STEPS_PER_MM={88573186, 88573186, 400000000, 96275202, 96275202}'',
        ''EEPROM_MENU_ENABLE''],
      squeeze = None\<rparr>"

definition platform_mighty_twox_hyper :: profile where
  "platform_mighty_twox_hyper =
     \<lparr>mcu = ''atmega1280'', programmer = ''stk500v1'',
      board_directory = ''mighty_two'',
      defines = [
        ''AUTO_LEVEL'', ''PSTOP_ZMIN_LEVEL'', ''AUTO_LEVEL_IGNORE_ZMIN_ONBUILD'',
        ''BUILD_STATS'', ''HAS_RGB_LED'', ''COOLING_FAN_PWM'',
        ''PLATFORM_SPLASH1_MSG='' @ bsq @ ''SF-Rep 2X'' @ bsq,
        ''PLATFORM_TOOLHEAD_OFFSET_X=3100'',
        ''PLATFORM_THE_REPLICATOR_STR='' @ bsq @ ''Replicator 2X'' @ bsq,
        ''PLATFORM_MACHINE_ID=0xB017'', ''PLATFORM_X_OFFSET_STEPS=13463L'',
        ''PLATFORM_Y_OFFSET_STEPS=6643L'',
        ''PLATFORM_AXIS_LENGTHS={246L, 152L, 155L, 100000L, 100000L}'',
        ''PLATFORM_AXIS_STEPS_PER_MM={88573186, 88573186, 400000000, 96275202, 96275202}'',
        ''EEPROM_MENU_ENABLE''],
      squeeze = None\<rparr>"

definition platform_mighty_twox :: profile where
  "platform_mighty_twox =
     \<lparr>mcu = ''atmega1280'', programmer = ''stk500v1'',
      board_directory = ''mighty_two'',
      defines = [
        ''BUILD_STATS'', ''HAS_RGB_LED'', ''COOLING_FAN_PWM'',
        ''PLATFORM_SPLASH1_MSG='' @ bsq @ ''SF-Rep 2X'' @ bsq,
        ''PLATFORM_TOOLHEAD_OFFSET_X=3100'',
        ''PLATFORM_THE_REPLICATOR_STR='' @ bsq @ ''Replicator 2X'' @ bsq,
        ''PLATFORM_MACHINE_ID=0xB017'', ''PLATFORM_X_OFFSET_STEPS=13463L'',
        ''PLATFORM_Y_OFFSET_STEPS=6643L'',
        ''PLATFORM_AXIS_LENGTHS={246L, 152L, 155L, 100000L, 100000L}'',
        ''PLATFORM_AXIS_STEPS_PER_MM={88573186, 88573186, 400000000, 96275202, 96275202}'',
        ''EEPROM_MENU_ENABLE''],
      squeeze = None\<rparr>"

definition platform_mighty_twox_2560_zmax :: profile where
  "platform_mighty_twox_2560_zmax =
     \<lparr>mcu = ''atmega2560'', programmer = ''stk500v2'',
      board_directory = ''mighty_two'',
      defines = [
        ''BUILD_STATS'', ''ALTERNATE_UART'', ''AUTO_LEVEL'', ''AUTO_LEVEL_IGNORE_ZMIN_ONBUILD'',
        ''PSTOP_ZMIN_LEVEL'', ''HAS_RGB_LED'', ''COOLING_FAN_PWM'', ''USE_ZMAX_HOME'',
        ''PLATFORM_SPLASH1_MSG='' @ bsq @ ''SF-Rep 2X'' @ bsq,
        ''PLATFORM_TOOLHEAD_OFFSET_X=3100'',
        ''PLATFORM_THE_REPLICATOR_STR='' @ bsq @ ''Replicator 2X'' @ bsq,
        ''PLATFORM_MACHINE_ID=0xB017'', ''PLATFORM_X_OFFSET_STEPS=13463L'',
        ''PLATFORM_Y_OFFSET_STEPS=6643L'',
        ''PLATFORM_AXIS_LENGTHS={246L, 152L, 155L, 100000L, 100000L}'',
        ''PLATFORM_AXIS_STEPS_PER_MM={88573186, 88573186, 400000000, 96275202, 96275202}'',
        ''EEPROM_MENU_ENABLE'', ''RGB_LED_MENU''],
      squeeze = None\<rparr>"

definition platform_mighty_twox_2560 :: profile where
  "platform_mighty_twox_2560 =
     \<lparr>mcu = ''atmega2560'', programmer = ''stk500v2'',
      board_directory = ''mighty_two'',
      defines = [
        ''BUILD_STATS'', ''ALTERNATE_UART'', ''AUTO_LEVEL'', ''AUTO_LEVEL_IGNORE_ZMIN_ONBUILD'',
        ''PSTOP_ZMIN_LEVEL'', ''HAS_RGB_LED'', ''COOLING_FAN_PWM'',
        ''PLATFORM_SPLASH1_MSG='' @ bsq @ ''SF-Rep 2X'' @ bsq,
        ''PLATFORM_TOOLHEAD_OFFSET_X=3100'',
        ''PLATFORM_THE_REPLICATOR_STR='' @ bsq @ ''Replicator 2X'' @ bsq,
        ''PLATFORM_MACHINE_ID=0xB017'', ''PLATFORM_X_OFFSET_STEPS=13463L'',
        ''PLATFORM_Y_OFFSET_STEPS=6643L'',
        ''PLATFORM_AXIS_LENGTHS={246L, 152L, 155L, 100000L, 100000L}'',
        ''PLATFORM_AXIS_STEPS_PER_MM={88573186, 88573186, 400000000, 96275202, 96275202}'',
        ''EEPROM_MENU_ENABLE'', ''RGB_LED_MENU''],
      squeeze = None\<rparr>"

definition platform_ff_creator_hyper_zmax :: profile where
  "platform_ff_creator_hyper_zmax =
     \<lparr>mcu = ''atmega1280'', programmer = ''stk500v1'',
      board_directory = ''mighty_one'',
      defines = [
        ''AUTO_LEVEL'', ''PSTOP_ZMIN_LEVEL'', ''AUTO_LEVEL_IGNORE_ZMIN_ONBUILD'',
        ''BUILD_STATS'', ''HEATERS_ON_STEROIDS'', ''HAS_RGB_LED'', ''COOLING_FAN_PWM'',
        ''PLATFORM_SPLASH1_MSG='' @ bsq @ ''SF-FF Creator'' @ bsq, ''USE_ZMAX_HOME'',
        ''PLATFORM_TOOLHEAD_OFFSET_X=3201'',
        ''PLATFORM_THE_REPLICATOR_STR='' @ bsq @ ''FF Creator'' @ bsq, ''EEPROM_MENU_ENABLE''],
      squeeze = None\<rparr>"

definition platform_ff_creator_hyper :: profile where
  "platform_ff_creator_hyper =
     \<lparr>mcu = ''atmega1280'', programmer = ''stk500v1'',
      board_directory = ''mighty_one'',
      defines = [
        ''AUTO_LEVEL'', ''PSTOP_ZMIN_LEVEL'', ''AUTO_LEVEL_IGNORE_ZMIN_ONBUILD'',
        ''BUILD_STATS'', ''HEATERS_ON_STEROIDS'', ''HAS_RGB_LED'', ''COOLING_FAN_PWM'',
        ''PLATFORM_SPLASH1_MSG='' @ bsq @ ''SF-FF Creator'' @ bsq,
        ''PLATFORM_TOOLHEAD_OFFSET_X=3201'',
        ''PLATFORM_THE_REPLICATOR_STR='' @ bsq @ ''FF Creator'' @ bsq, ''EEPROM_MENU_ENABLE''],
      squeeze = None\<rparr>"

definition platform_ff_creator :: profile where
  "platform_ff_creator =
     \<lparr>mcu = ''atmega1280'', programmer = ''stk500v1'',
      board_directory = ''mighty_one'',
      defines = [
        ''HEATERS_ON_STEROIDS'', ''HAS_RGB_LED'', ''COOLING_FAN_PWM'',
        ''PLATFORM_SPLASH1_MSG='' @ bsq @ ''SF-Creator'' @ bsq,
        ''PLATFORM_TOOLHEAD_OFFSET_X=3201'',
        ''PLATFORM_THE_REPLICATOR_STR='' @ bsq @ ''FF Creator'' @ bsq, ''EEPROM_MENU_ENABLE''],
      squeeze = None\<rparr>"

definition platform_ff_creator_2560_zmax :: profile where
  "platform_ff_creator_2560_zmax =
     \<lparr>mcu = ''atmega2560'', programmer = ''stk500v2'',
      board_directory = ''mighty_one'',
      defines = [
        ''BUILD_STATS'', ''ALTERNATE_UART'', ''COOLING_FAN_PWM'', ''USE_ZMAX_HOME'',
        ''PLATFORM_SPLASH1_MSG='' @ bsq @ ''SF-FF Creator'' @ bsq,
        ''PLATFORM_TOOLHEAD_OFFSET_X=3201'',
        ''PLATFORM_THE_REPLICATOR_STR='' @ bsq @ ''FF Creator'' @ bsq, ''HEATERS_ON_STEROIDS'',
        ''AUTO_LEVEL'', ''AUTO_LEVEL_IGNORE_ZMIN_ONBUILD'', ''PSTOP_ZMIN_LEVEL'',
        ''HAS_RGB_LED'', ''RGB_LED_MENU'', ''EEPROM_MENU_ENABLE''],
      squeeze = None\<rparr>"

definition platform_ff_creator_2560 :: profile where
  "platform_ff_creator_2560 =
     \<lparr>mcu = ''atmega2560'', programmer = ''stk500v2'',
      board_directory = ''mighty_one'',
      defines = [
        ''BUILD_STATS'', ''ALTERNATE_UART'', ''COOLING_FAN_PWM'',
        ''PLATFORM_SPLASH1_MSG='' @ bsq @ ''SF-FF Creator'' @ bsq,
        ''PLATFORM_TOOLHEAD_OFFSET_X=3201'',
        ''PLATFORM_THE_REPLICATOR_STR='' @ bsq @ ''FF Creator'' @ bsq, ''HEATERS_ON_STEROIDS'',
        ''AUTO_LEVEL'', ''AUTO_LEVEL_IGNORE_ZMIN_ONBUILD'', ''PSTOP_ZMIN_LEVEL'',
        ''HAS_RGB_LED'', ''RGB_LED_MENU'', ''EEPROM_MENU_ENABLE''],
      squeeze = None\<rparr>"

definition platform_ff_creatorx_2560_zmax :: profile where
  "platform_ff_creatorx_2560_zmax =
     \<lparr>mcu = ''atmega2560'', programmer = ''stk500v2'',
      board_directory = ''mighty_one'',
      defines = [
        ''BUILD_STATS'', ''ALTERNATE_UART'', ''HBP_SOFTPWM'', ''COOLING_FAN_PWM'',
        ''USE_ZMAX_HOME'', ''PLATFORM_SPLASH1_MSG='' @ bsq @ ''SF-FF CreatorX'' @ bsq,
        ''PLATFORM_TOOLHEAD_OFFSET_X=3201'',
        ''PLATFORM_THE_REPLICATOR_STR='' @ bsq @ ''Creator X / Pro'' @ bsq,
        ''HEATERS_ON_STEROIDS'', ''AUTO_LEVEL'', ''AUTO_LEVEL_IGNORE_ZMIN_ONBUILD'',
        ''PSTOP_ZMIN_LEVEL'', ''HAS_RGB_LED'', ''RGB_LED_MENU'', ''EEPROM_MENU_ENABLE''],
      squeeze = None\<rparr>"

definition platform_ff_creatorx_2560 :: profile where
  "platform_ff_creatorx_2560 =
     \<lparr>mcu = ''atmega2560'', programmer = ''stk500v2'',
      board_directory = ''mighty_one'',
      defines = [
        ''BUILD_STATS'', ''ALTERNATE_UART'', ''HBP_SOFTPWM'', ''COOLING_FAN_PWM'',
        ''PLATFORM_SPLASH1_MSG='' @ bsq @ ''SF-FF CreatorX'' @ bsq,
        ''PLATFORM_TOOLHEAD_OFFSET_X=3201'',
        ''PLATFORM_THE_REPLICATOR_STR='' @ bsq @ ''Creator X / Pro'' @ bsq,
        ''HEATERS_ON_STEROIDS'', ''AUTO_LEVEL'', ''AUTO_LEVEL_IGNORE_ZMIN_ONBUILD'',
        ''PSTOP_ZMIN_LEVEL'', ''HAS_RGB_LED'', ''RGB_LED_MENU'', ''EEPROM_MENU_ENABLE''],
      squeeze = None\<rparr>"

definition platform_wanhao_dup4_hyper_zmax :: profile where
  "platform_wanhao_dup4_hyper_zmax =
     \<lparr>mcu = ''atmega1280'', programmer = ''stk500v1'',
      board_directory = ''mighty_one'',
      defines = [
        ''AUTO_LEVEL'', ''PSTOP_ZMIN_LEVEL'', ''AUTO_LEVEL_IGNORE_ZMIN_ONBUILD'',
        ''USE_ZMAX_HOME'', ''BUILD_STATS'', ''HEATERS_ON_STEROIDS'', ''COOLING_FAN_PWM'',
        ''USE_ZMAX_HOME'', ''PLATFORM_SPLASH1_MSG='' @ bsq @ ''SF-Wanhao Dup4'' @ bsq,
        ''PLATFORM_THE_REPLICATOR_STR='' @ bsq @ ''Wanhao Duplicatr'' @ bsq,
        ''PLATFORM_TOOLHEAD_OFFSET_X=3201'', ''PLATFORM_X_OFFSET_STEPS=13763L'',
        ''PLATFORM_Y_OFFSET_STEPS=6919L'', ''HAS_RGB_LED'', ''EEPROM_MENU_ENABLE''],
      squeeze = None\<rparr>"

definition platform_wanhao_dup4_hyper :: profile where
  "platform_wanhao_dup4_hyper =
     \<lparr>mcu = ''atmega1280'', programmer = ''stk500v1'',
      board_directory = ''mighty_one'',
      defines = [
        ''AUTO_LEVEL'', ''PSTOP_ZMIN_LEVEL'', ''AUTO_LEVEL_IGNORE_ZMIN_ONBUILD'',
        ''BUILD_STATS'', ''HEATERS_ON_STEROIDS'', ''COOLING_FAN_PWM'',
        ''PLATFORM_SPLASH1_MSG='' @ bsq @ ''SF-Wanhao Dup4'' @ bsq,
        ''PLATFORM_THE_REPLICATOR_STR='' @ bsq @ ''Wanhao Duplicatr'' @ bsq,
        ''PLATFORM_TOOLHEAD_OFFSET_X=3201'', ''PLATFORM_X_OFFSET_STEPS=13763L'',
        ''PLATFORM_Y_OFFSET_STEPS=6919L'', ''HAS_RGB_LED'', ''EEPROM_MENU_ENABLE''],
      squeeze = None\<rparr>"

definition platform_zyyx_1280_hyper :: profile where
  "platform_zyyx_1280_hyper =
     \<lparr>mcu = ''atmega1280'', programmer = ''stk500v1'',
      board_directory = ''mighty_one'',
      defines = [
        ''AUTO_LEVEL'', ''PSTOP_ZMIN_LEVEL'', ''AUTO_LEVEL_IGNORE_ZMIN_ONBUILD'',
        ''BUILD_STATS'', ''SINGLE_EXTRUDER'', ''ZYYX_3D_PRINTER'', ''HEATERS_ON_STEROIDS'',
        ''COOLING_FAN_PWM'', ''PLATFORM_SPLASH1_MSG='' @ bsq @ ''SF-ZYYX 3DP'' @ bsq,
        ''PLATFORM_THE_REPLICATOR_STR='' @ bsq @ ''ZYYX 3D Printer'' @ bsq,
        ''PLATFORM_X_OFFSET_STEPS=11957L'', ''PLATFORM_Y_OFFSET_STEPS=10186L'',
        ''PLATFORM_HBP_PRESENT=0'',
        ''PLATFORM_AXIS_LENGTHS={270L, 230L, 195L, 100000L, 100000L}'',
        ''PLATFORM_AXIS_STEPS_PER_MM={88573186, 88573186, 400000000, 96275202, 96275202}'',
        ''AUTO_LEVEL'', ''AUTO_LEVEL_ZYYX'', ''PSTOP_ZMIN_LEVEL''],
      squeeze = None\<rparr>"

definition platform_wanhao_dup4 :: profile where
  "platform_wanhao_dup4 =
     \<lparr>mcu = ''atmega1280'', programmer = ''stk500v1'',
      board_directory = ''mighty_one'',
      defines = [
        ''HEATERS_ON_STEROIDS'', ''COOLING_FAN_PWM'',
        ''PLATFORM_SPLASH1_MSG='' @ bsq @ ''SF-Wanhao Dup4'' @ bsq,
        ''PLATFORM_THE_REPLICATOR_STR='' @ bsq @ ''Wanhao Duplicatr'' @ bsq,
        ''PLATFORM_TOOLHEAD_OFFSET_X=3201'', ''PLATFORM_X_OFFSET_STEPS=13763L'',
        ''PLATFORM_Y_OFFSET_STEPS=6919L'', ''HAS_RGB_LED'', ''EEPROM_MENU_ENABLE''],
      squeeze = None\<rparr>"

definition platform_zyyx_1280 :: profile where
  "platform_zyyx_1280 =
     \<lparr>mcu = ''atmega1280'', programmer = ''stk500v1'',
      board_directory = ''mighty_one'',
      defines = [
        ''SINGLE_EXTRUDER'', ''ZYYX_3D_PRINTER'', ''HEATERS_ON_STEROIDS'', ''COOLING_FAN_PWM'',
        ''PLATFORM_SPLASH1_MSG='' @ bsq @ ''SF-ZYYX 3DP'' @ bsq,
        ''PLATFORM_THE_REPLICATOR_STR='' @ bsq @ ''ZYYX 3D Printer'' @ bsq,
        ''PLATFORM_X_OFFSET_STEPS=11957L'', ''PLATFORM_Y_OFFSET_STEPS=10186L'',
        ''PLATFORM_HBP_PRESENT=0'',
        ''PLATFORM_AXIS_LENGTHS={270L, 230L, 195L, 100000L, 100000L}'',
        ''PLATFORM_AXIS_STEPS_PER_MM={88573186, 88573186, 400000000, 96275202, 96275202}'',
        ''AUTO_LEVEL'', ''AUTO_LEVEL_ZYYX'', ''PSTOP_ZMIN_LEVEL''],
      squeeze = None\<rparr>"

definition platform_zyyx_2560 :: profile where
  "platform_zyyx_2560 =
     \<lparr>mcu = ''atmega2560'', programmer = ''stk500v2'',
      board_directory = ''mighty_one'',
      defines = [
        ''EEPROM_MENU_ENABLE'', ''BUILD_STATS'', ''SINGLE_EXTRUDER'', ''ALTERNATE_UART'',
        ''ZYYX_3D_PRINTER'', ''COOLING_FAN_PWM'',
        ''PLATFORM_SPLASH1_MSG='' @ bsq @ ''SF-ZYYX 3DP'' @ bsq,
        ''PLATFORM_THE_REPLICATOR_STR='' @ bsq @ ''ZYYX 3D Printer'' @ bsq,
        ''PLATFORM_X_OFFSET_STEPS=11957L'', ''PLATFORM_Y_OFFSET_STEPS=10186L'',
        ''PLATFORM_HBP_PRESENT=0'',
        ''PLATFORM_AXIS_LENGTHS={270L, 230L, 195L, 100000L, 100000L}'',
        ''PLATFORM_AXIS_STEPS_PER_MM={88573186, 88573186, 400000000, 96275202, 96275202}'',
        ''HEATERS_ON_STEROIDS'', ''AUTO_LEVEL'', ''AUTO_LEVEL_IGNORE_ZMIN_ONBUILD'',
        ''AUTO_LEVEL_ZYYX'', ''PSTOP_ZMIN_LEVEL'', ''ZYYX_LEVEL_SCRIPT''],
      squeeze = None\<rparr>"

definition platform_zyyx_dual_2560 :: profile where
  "platform_zyyx_dual_2560 =
     \<lparr>mcu = ''atmega2560'', programmer = ''stk500v2'',
      board_directory = ''mighty_one'',
      defines = [
        ''EEPROM_MENU_ENABLE'', ''BUILD_STATS'', ''COOLING_FAN_PWM'', ''ALTERNATE_UART'',
        ''ZYYX_3D_PRINTER'', ''PLATFORM_SPLASH1_MSG='' @ bsq @ ''SF-ZYYX 3DP'' @ bsq,
        ''PLATFORM_THE_REPLICATOR_STR='' @ bsq @ ''ZYYX 3D Printer'' @ bsq,
        ''PLATFORM_X_OFFSET_STEPS=11957L'', ''PLATFORM_Y_OFFSET_STEPS=10186L'',
        ''PLATFORM_HBP_PRESENT=0'',
        ''PLATFORM_AXIS_LENGTHS={270L, 230L, 195L, 100000L, 100000L}'',
        ''PLATFORM_AXIS_STEPS_PER_MM={88573186, 88573186, 400000000, 96275202, 96275202}'',
        ''HEATERS_ON_STEROIDS'', ''AUTO_LEVEL'', ''AUTO_LEVEL_IGNORE_ZMIN_ONBUILD'',
        ''AUTO_LEVEL_ZYYX'', ''PSTOP_ZMIN_LEVEL'', ''ZYYX_LEVEL_SCRIPT''],
      squeeze = None\<rparr>"

definition platform_azteeg_x3_xymax :: profile where
  "platform_azteeg_x3_xymax =
     \<lparr>mcu = ''atmega2560'', programmer = ''stk500v2'',
      board_directory = ''azteeg_x3'',
      defines = [
        ''BUILD_STATS'', ''HEATERS_ON_STEROIDS'',
        ''PLATFORM_SPLASH1_MSG='' @ bsq @ ''SF-Azteeg XYmx'' @ bsq,
        ''PLATFORM_THE_REPLICATOR_STR='' @ bsq @ ''Azteeg X3'' @ bsq,
        ''PLATFORM_X_OFFSET_STEPS=14309L'', ''PLATFORM_Y_OFFSET_STEPS=7060L'',
        ''PLATFORM_VREF_DEFAULTS={127, 127, 127, 127, 127}'', ''AUTO_LEVEL'',
        ''AUTO_LEVEL_IGNORE_ZMIN_ONBUILD'', ''PSTOP_ZMIN_LEVEL'', ''COOLING_FAN_PWM'',
        ''EEPROM_MENU_ENABLE'', ''HAS_RGB_LED''],
      squeeze = None\<rparr>"

definition platform_azteeg_x3_xymax_corexy :: profile where
  "platform_azteeg_x3_xymax_corexy =
     \<lparr>mcu = ''atmega2560'', programmer = ''stk500v2'',
      board_directory = ''azteeg_x3'',
      defines = [
        ''CORE_XY'', ''BUILD_STATS'', ''HEATERS_ON_STEROIDS'',
        ''PLATFORM_SPLASH1_MSG='' @ bsq @ ''SF-Azteeg XYmx'' @ bsq,
        ''PLATFORM_THE_REPLICATOR_STR='' @ bsq @ ''Azteeg X3 CoreXY'' @ bsq,
        ''PLATFORM_X_OFFSET_STEPS=14309L'', ''PLATFORM_Y_OFFSET_STEPS=7060L'',
        ''PLATFORM_VREF_DEFAULTS={127, 127, 127, 127, 127}'', ''AUTO_LEVEL'',
        ''AUTO_LEVEL_IGNORE_ZMIN_ONBUILD'', ''PSTOP_ZMIN_LEVEL'', ''COOLING_FAN_PWM'',
        ''EEPROM_MENU_ENABLE'', ''HAS_RGB_LED''],
      squeeze = None\<rparr>"

definition platform_azteeg_x3_xymin :: profile where
  "platform_azteeg_x3_xymin =
     \<lparr>mcu = ''atmega2560'', programmer = ''stk500v2'',
      board_directory = ''azteeg_x3'',
      defines = [
        ''BUILD_STATS'', ''HEATERS_ON_STEROIDS'', ''XY_MIN_HOMING'',
        ''PLATFORM_SPLASH1_MSG='' @ bsq @ ''SF-Azteeg XYmn'' @ bsq,
        ''PLATFORM_THE_REPLICATOR_STR='' @ bsq @ ''Azteeg X3'' @ bsq,
        ''PLATFORM_X_OFFSET_STEPS=0L'', ''PLATFORM_Y_OFFSET_STEPS=0L'',
        ''PLATFORM_VREF_DEFAULTS={127, 127, 127, 127, 127}'', ''AUTO_LEVEL'',
        ''AUTO_LEVEL_IGNORE_ZMIN_ONBUILD'', ''PSTOP_ZMIN_LEVEL'', ''COOLING_FAN_PWM'',
        ''EEPROM_MENU_ENABLE'', ''HAS_RGB_LED''],
      squeeze = None\<rparr>"

definition platform_azteeg_x3_xymin_corexy :: profile where
  "platform_azteeg_x3_xymin_corexy =
     \<lparr>mcu = ''atmega2560'', programmer = ''stk500v2'',
      board_directory = ''azteeg_x3'',
      defines = [
        ''CORE_XY'', ''BUILD_STATS'', ''HEATERS_ON_STEROIDS'',
        ''PLATFORM_SPLASH1_MSG='' @ bsq @ ''SF-Azteeg XYmn'' @ bsq,
        ''PLATFORM_THE_REPLICATOR_STR='' @ bsq @ ''Azteeg X3 CoreXY'' @ bsq,
        ''PLATFORM_X_OFFSET_STEPS=0L'', ''PLATFORM_Y_OFFSET_STEPS=0L'',
        ''PLATFORM_VREF_DEFAULTS={127, 127, 127, 127, 127}'', ''AUTO_LEVEL'',
        ''AUTO_LEVEL_IGNORE_ZMIN_ONBUILD'', ''PSTOP_ZMIN_LEVEL'', ''COOLING_FAN_PWM'',
        ''EEPROM_MENU_ENABLE'', ''HAS_RGB_LED'', ''XY_MIN_HOMING''],
      squeeze = None\<rparr>"

text \<open>The display itself: the keys with their values, in source order.\<close>

definition platforms_literal :: "(string \<times> profile) list" where
  "platforms_literal = [
    (''mighty_one-hyper-zmax'', platform_mighty_one_hyper_zmax),
    (''mighty_one-hyper'', platform_mighty_one_hyper), (''mighty_one'', platform_mighty_one),
    (''mighty_one-architect-hyper-zmax'', platform_mighty_one_architect_hyper_zmax),
    (''mighty_one-architect-hyper'', platform_mighty_one_architect_hyper),
    (''mighty_one-architect'', platform_mighty_one_architect),
    (''mighty_one-corexy-hyper-zmax'', platform_mighty_one_corexy_hyper_zmax),
    (''mighty_one-corexy-hyper'', platform_mighty_one_corexy_hyper),
    (''mighty_one-corexy'', platform_mighty_one_corexy),
    (''mighty_one-2560-zmax'', platform_mighty_one_2560_zmax),
    (''mighty_one-2560'', platform_mighty_one_2560),
    (''CTC_BizerMod-2560-zmax'', platform_CTC_BizerMod_2560_zmax),
    (''CTC_BizerMod-2560'', platform_CTC_BizerMod_2560),
    (''CTC_BondtechDualDrive-2560'', platform_CTC_BondtechDualDrive_2560),
    (''mighty_one-2560-corexy-zmax'', platform_mighty_one_2560_corexy_zmax),
    (''mighty_one-2560-corexy'', platform_mighty_one_2560_corexy),
    (''mighty_one-2560-clone-r1-zmax'', platform_mighty_one_2560_clone_r1_zmax),
    (''mighty_one-2560-clone-r1'', platform_mighty_one_2560_clone_r1),
    (''mighty_one-2560-max31855-corexy-zmax'', platform_mighty_one_2560_max31855_corexy_zmax),
    (''mighty_one-2560-max31855-corexy'', platform_mighty_one_2560_max31855_corexy),
    (''mighty_one-2560-max31855-zmax'', platform_mighty_one_2560_max31855_zmax),
    (''mighty_one-2560-max31855'', platform_mighty_one_2560_max31855),
    (''mighty_two-hyper-zmax'', platform_mighty_two_hyper_zmax),
    (''mighty_two-hyper'', platform_mighty_two_hyper),
    (''mighty_two-corexy-hyper-zmax'', platform_mighty_two_corexy_hyper_zmax),
    (''mighty_two-corexy-hyper'', platform_mighty_two_corexy_hyper),
    (''mighty_two'', platform_mighty_two), (''mighty_two-corexy'', platform_mighty_two_corexy),
    (''mighty_two-2560-zmax'', platform_mighty_two_2560_zmax),
    (''mighty_two-2560'', platform_mighty_two_2560),
    (''mighty_twox-hyper-zmax'', platform_mighty_twox_hyper_zmax),
    (''mighty_twox-hyper'', platform_mighty_twox_hyper),
    (''mighty_twox'', platform_mighty_twox),
    (''mighty_twox-2560-zmax'', platform_mighty_twox_2560_zmax),
    (''mighty_twox-2560'', platform_mighty_twox_2560),
    (''ff_creator-hyper-zmax'', platform_ff_creator_hyper_zmax),
    (''ff_creator-hyper'', platform_ff_creator_hyper), (''ff_creator'', platform_ff_creator),
    (''ff_creator-2560-zmax'', platform_ff_creator_2560_zmax),
    (''ff_creator-2560'', platform_ff_creator_2560),
    (''ff_creatorx-2560-zmax'', platform_ff_creatorx_2560_zmax),
    (''ff_creatorx-2560'', platform_ff_creatorx_2560),
    (''wanhao_dup4-hyper-zmax'', platform_wanhao_dup4_hyper_zmax),
    (''wanhao_dup4-hyper'', platform_wanhao_dup4_hyper),
    (''zyyx-1280-hyper'', platform_zyyx_1280_hyper), (''wanhao_dup4'', platform_wanhao_dup4),
    (''zyyx-1280'', platform_zyyx_1280), (''zyyx-2560'', platform_zyyx_2560),
    (''zyyx-dual-2560'', platform_zyyx_dual_2560),
    (''azteeg-x3-xymax'', platform_azteeg_x3_xymax),
    (''azteeg-x3-xymax-corexy'', platform_azteeg_x3_xymax_corexy),
    (''azteeg-x3-xymin'', platform_azteeg_x3_xymin),
    (''azteeg-x3-xymin-corexy'', platform_azteeg_x3_xymin_corexy)]"

definition platforms :: registry where
  "platforms = dict_literal platforms_literal"

section \<open>Loading \<^verbatim>\<open>~/.sailfish_platforms.py\<close>\<close>

text \<open>
  The module mutates the dictionary object bound to \<^verbatim>\<open>platforms\<close>, so dictionary objects
  live in a store and the variable holds an address. The dictionary \<^verbatim>\<open>tmp_dict\<close> handed
  to \<^verbatim>\<open>exec\<close> is a separate object that the executed file alone can reach; it is passed
  by value.
\<close>

type_synonym addr = nat

record module_state =
  heap :: "addr \<Rightarrow> registry"
  platforms_var :: addr

text \<open>
  The namespace given to \<^verbatim>\<open>exec\<close>, restricted to names bound to platform dictionaries.
  The text of a site file is represented by what executing it does to that namespace:
  it raises (a syntax error, a failing statement, an unreadable file) or leaves an
  updated namespace.
\<close>

type_synonym globals = "(string, registry) dict"

type_synonym site_code = "globals \<Rightarrow> exn + globals"

text \<open>
  The surroundings of the process: the expansion of \<^verbatim>\<open>~\<close> and the regular files by
  path (\<^verbatim>\<open>isfile\<close> holds exactly for the paths that are mapped).
\<close>

record environment =
  home_dir :: string
  files :: "string \<Rightarrow> site_code option"

definition isfile :: "environment \<Rightarrow> string \<Rightarrow> bool" where
  "isfile env path = (files env path \<noteq> None)"

text \<open>
  \<^verbatim>\<open>home[-1]\<close> raises on the empty string; otherwise a slash is appended when missing
  and the file name follows.
\<close>

definition site_file :: "string \<Rightarrow> exn + string" where
  "site_file home =
     (if home = [] then Inl (Exn ''IndexError'' ''string index out of range'')
      else Inr ((if last home \<noteq> CHR ''/'' then home @ ''/'' else home)
                @ ''.sailfish_platforms.py''))"

text \<open>\<^verbatim>\<open>platforms[key] = v\<close>: an update in place of the object that \<^verbatim>\<open>platforms\<close> names.\<close>

definition platforms_setitem :: "string \<Rightarrow> profile \<Rightarrow> module_state \<Rightarrow> module_state" where
  "platforms_setitem key v s =
     s\<lparr>heap := (heap s)(platforms_var s := dict_setitem key v (heap s (platforms_var s)))\<rparr>"

text \<open>
  \<^verbatim>\<open>for key in tmp_platforms: platforms[key] = tmp_platforms[key]\<close>, over the keys still
  to be visited. The result is the pending exception, if any, and the state reached.
\<close>

fun merge_keys :: "string list \<Rightarrow> registry \<Rightarrow> module_state \<Rightarrow> exn option \<times> module_state" where
  "merge_keys [] tmp_platforms s = (None, s)"
| "merge_keys (key # keys) tmp_platforms s =
     (case dict_getitem tmp_platforms key of
        Inl e \<Rightarrow> (Some e, s)
      | Inr v \<Rightarrow> merge_keys keys tmp_platforms (platforms_setitem key v s))"

definition merge_platforms :: "registry \<Rightarrow> module_state \<Rightarrow> exn option \<times> module_state" where
  "merge_platforms tmp_platforms s = merge_keys (dict_keys tmp_platforms) tmp_platforms s"

text \<open>The statements of the module after the display, run in a state where it is stored.\<close>

definition load_site_platforms :: "environment \<Rightarrow> module_state \<Rightarrow> exn option \<times> module_state" where
  "load_site_platforms env s =
     (let tmp_dict = [(''platforms'', [])] in
      case site_file (home_dir env) of
        Inl e \<Rightarrow> (Some e, s)
      | Inr path \<Rightarrow>
          (case files env path of
             None \<Rightarrow> (None, s)
           | Some code \<Rightarrow>
               (case code tmp_dict of
                  Inl e \<Rightarrow> (Some e, s)
                | Inr tmp_dict' \<Rightarrow>
                    if dict_contains ''platforms'' tmp_dict'
                    then (case dict_getitem tmp_dict' ''platforms'' of
                            Inl e \<Rightarrow> (Some e, s)
                          | Inr tmp_platforms \<Rightarrow> merge_platforms tmp_platforms s)
                    else (None, s))))"

text \<open>The state right after the display has been evaluated and bound.\<close>

definition initial_state :: module_state where
  "initial_state = \<lparr>heap = (\<lambda>a. [])(0 := platforms), platforms_var = 0\<rparr>"

definition current_platforms :: "module_state \<Rightarrow> registry" where
  "current_platforms s = heap s (platforms_var s)"

section \<open>The site file on Python values\<close>

text \<open>
  The loader above takes the site file to leave \<^verbatim>\<open>platforms\<close> bound to a mapping from
  ids to profiles. The module checks nothing of the kind: whatever object the file
  leaves there is iterated and subscripted. This section runs the same statements on
  Python values, integers, strings, lists and dictionaries of such, so that a binding
  like \<^verbatim>\<open>platforms = [0, 5]\<close> is an input too.
\<close>

datatype pyval = PyInt int | PyStr string | PyList "pyval list" | PyDict "(pyval \<times> pyval) list"

text \<open>Integers and strings can be keys of a dictionary; lists and dictionaries cannot.\<close>

fun hashable :: "pyval \<Rightarrow> bool" where
  "hashable (PyInt i) = True"
| "hashable (PyStr s) = True"
| "hashable (PyList xs) = False"
| "hashable (PyDict d) = False"

text \<open>The position that an index denotes in a sequence of length \<open>n\<close>, counted from the
  end when negative.\<close>

definition py_index :: "int \<Rightarrow> nat \<Rightarrow> nat option" where
  "py_index i n =
     (let j = (if i < 0 then int n + i else i)
      in if 0 \<le> j \<and> j < int n then Some (nat j) else None)"

text \<open>The text kept as the argument of a \<^verbatim>\<open>KeyError\<close>.\<close>

fun key_text :: "pyval \<Rightarrow> string" where
  "key_text (PyStr s) = s"
| "key_text v = []"

text \<open>
  \<^verbatim>\<open>for key in v\<close>: a dictionary yields its keys, a list its elements, a string its
  characters as strings; an integer cannot be iterated.
\<close>

fun py_iter :: "pyval \<Rightarrow> exn + pyval list" where
  "py_iter (PyDict d) = Inr (map fst d)"
| "py_iter (PyList xs) = Inr xs"
| "py_iter (PyStr s) = Inr (map (\<lambda>c. PyStr [c]) s)"
| "py_iter (PyInt i) = Inl (Exn ''TypeError'' ''int object is not iterable'')"

text \<open>\<^verbatim>\<open>v[key]\<close>.\<close>

fun py_getitem :: "pyval \<Rightarrow> pyval \<Rightarrow> exn + pyval" where
  "py_getitem (PyDict d) key =
     (if hashable key
      then (case map_of d key of
              None \<Rightarrow> Inl (Exn ''KeyError'' (key_text key))
            | Some v \<Rightarrow> Inr v)
      else Inl (Exn ''TypeError'' ''unhashable type''))"
| "py_getitem (PyList xs) (PyInt i) =
     (case py_index i (length xs) of
        None \<Rightarrow> Inl (Exn ''IndexError'' ''list index out of range'')
      | Some j \<Rightarrow> Inr (xs ! j))"
| "py_getitem (PyList xs) key = Inl (Exn ''TypeError'' ''list indices must be integers'')"
| "py_getitem (PyStr s) (PyInt i) =
     (case py_index i (length s) of
        None \<Rightarrow> Inl (Exn ''IndexError'' ''string index out of range'')
      | Some j \<Rightarrow> Inr (PyStr [s ! j]))"
| "py_getitem (PyStr s) key = Inl (Exn ''TypeError'' ''string indices must be integers'')"
| "py_getitem (PyInt i) key = Inl (Exn ''TypeError'' ''int object has no attribute __getitem__'')"

text \<open>
  The store now holds dictionaries of Python values; \<^verbatim>\<open>platforms\<close> names one of them.
\<close>

record value_state =
  objects :: "addr \<Rightarrow> (pyval \<times> pyval) list"
  platforms_ref :: addr

text \<open>\<^verbatim>\<open>platforms[key] = v\<close>, which raises for a key that cannot be hashed.\<close>

definition value_setitem :: "pyval \<Rightarrow> pyval \<Rightarrow> value_state \<Rightarrow> exn + value_state" where
  "value_setitem key v s =
     (if hashable key
      then Inr (s\<lparr>objects := (objects s)(platforms_ref s :=
                   AList.update key v (objects s (platforms_ref s)))\<rparr>)
      else Inl (Exn ''TypeError'' ''unhashable type''))"

text \<open>
  The body of the loop for the keys still to come: an exception of the subscript or of
  the assignment ends the loop, and what earlier rounds assigned stays assigned.
\<close>

fun merge_values_keys ::
  "pyval list \<Rightarrow> pyval \<Rightarrow> value_state \<Rightarrow> exn option \<times> value_state" where
  "merge_values_keys [] tmp_platforms s = (None, s)"
| "merge_values_keys (key # keys) tmp_platforms s =
     (case py_getitem tmp_platforms key of
        Inl e \<Rightarrow> (Some e, s)
      | Inr v \<Rightarrow>
          (case value_setitem key v s of
             Inl e \<Rightarrow> (Some e, s)
           | Inr s' \<Rightarrow> merge_values_keys keys tmp_platforms s'))"

definition merge_values :: "pyval \<Rightarrow> value_state \<Rightarrow> exn option \<times> value_state" where
  "merge_values tmp_platforms s =
     (case py_iter tmp_platforms of
        Inl e \<Rightarrow> (Some e, s)
      | Inr keys \<Rightarrow> merge_values_keys keys tmp_platforms s)"

text \<open>The namespace of \<^verbatim>\<open>exec\<close> with any values, and a site file as what it does to it.\<close>

type_synonym namespace = "(string, pyval) dict"

type_synonym site_program = "namespace \<Rightarrow> exn + namespace"

record value_environment =
  v_home_dir :: string
  v_files :: "string \<Rightarrow> site_program option"

text \<open>The statements of the module after the display, on Python values.\<close>

definition load_site_values :: "value_environment \<Rightarrow> value_state \<Rightarrow> exn option \<times> value_state" where
  "load_site_values env s =
     (let tmp_dict = [(''platforms'', PyDict [])] in
      case site_file (v_home_dir env) of
        Inl e \<Rightarrow> (Some e, s)
      | Inr path \<Rightarrow>
          (case v_files env path of
             None \<Rightarrow> (None, s)
           | Some program \<Rightarrow>
               (case program tmp_dict of
                  Inl e \<Rightarrow> (Some e, s)
                | Inr tmp_dict' \<Rightarrow>
                    if dict_contains ''platforms'' tmp_dict'
                    then (case dict_getitem tmp_dict' ''platforms'' of
                            Inl e \<Rightarrow> (Some e, s)
                          | Inr tmp_platforms \<Rightarrow> merge_values tmp_platforms s)
                    else (None, s))))"

text \<open>
  A profile, a registry and a state of the loader above as Python values: a profile is
  the dictionary of its settings, with \<^verbatim>\<open>squeeze\<close> present only when it is set.
\<close>

definition profile_value :: "profile \<Rightarrow> pyval" where
  "profile_value p =
     PyDict ([(PyStr ''mcu'', PyStr (mcu p)), (PyStr ''programmer'', PyStr (programmer p)),
              (PyStr ''board_directory'', PyStr (board_directory p)),
              (PyStr ''defines'', PyList (map PyStr (defines p)))]
             @ (case squeeze p of
                  None \<Rightarrow> []
                | Some fs \<Rightarrow> [(PyStr ''squeeze'', PyList (map PyStr fs))]))"

definition registry_value :: "registry \<Rightarrow> (pyval \<times> pyval) list" where
  "registry_value r = map (\<lambda>(k, p). (PyStr k, profile_value p)) r"

definition state_value :: "module_state \<Rightarrow> value_state" where
  "state_value s =
     \<lparr>objects = (\<lambda>a. registry_value (heap s a)), platforms_ref = platforms_var s\<rparr>"

definition namespace_value :: "globals \<Rightarrow> namespace" where
  "namespace_value g = map (\<lambda>(n, r). (n, PyDict (registry_value r))) g"

section \<open>Listing the platforms\<close>

text \<open>
  The \<^verbatim>\<open>__main__\<close> block: a string is built with a blank after every key, and
  \<^verbatim>\<open>print list[:-1]\<close> writes it without its last character, followed by a newline.
\<close>

definition main_list :: "registry \<Rightarrow> string" where
  "main_list ps = fold (\<lambda>key list. list @ key @ '' '') (dict_keys ps) []"

definition main_stdout :: "registry \<Rightarrow> string" where
  "main_stdout ps = butlast (main_list ps) @ [CHR 0x0A]"

section \<open>Define composition and resolution\<close>

text \<open>
  Modelled from the spec: a define directive. The source documents the \<^verbatim>\<open>-\<close> prefix in
  a comment but holds no code that reads a \<^verbatim>\<open>defines\<close> list.
\<close>

datatype directive = Additive string "string option" | Subtractive string

text \<open>
  Modelled from the spec: the failures of composition and resolution, which the source
  does not contain. A malformed directive is reported with its text and position.
\<close>

datatype resolve_error = UnknownPlatformError string | InvalidDefineError string nat

type_synonym define_set = "(string, string option) dict"

text \<open>
  Modelled from the spec: \<^verbatim>\<open>NAME\<close> or \<^verbatim>\<open>NAME=value\<close>, split at the first \<^verbatim>\<open>=\<close>; the
  value is kept as it is written, and a bare name has the no-value sentinel \<open>None\<close>.
\<close>

definition split_name_value :: "string \<Rightarrow> string \<times> string option" where
  "split_name_value s =
     (takeWhile (\<lambda>c. c \<noteq> CHR ''='') s,
      case dropWhile (\<lambda>c. c \<noteq> CHR ''='') s of [] \<Rightarrow> None | _ # v \<Rightarrow> Some v)"

text \<open>
  Modelled from the spec: a directive is subtractive when prefixed with \<^verbatim>\<open>-\<close> (its value
  is ignored) and additive otherwise; one with an empty name is malformed.
\<close>

definition parse_directive :: "string \<Rightarrow> directive option" where
  "parse_directive d =
     (case d of
        [] \<Rightarrow> None
      | c # rest \<Rightarrow>
          if c = CHR ''-''
          then (let (n, v) = split_name_value rest in
                if n = [] then None else Some (Subtractive n))
          else (let (n, v) = split_name_value d in
                if n = [] then None else Some (Additive n v)))"

text \<open>
  Modelled from the spec: an additive directive inserts or overwrites its name, a
  subtractive one removes it, and removing an absent name changes nothing.
\<close>

fun apply_directive :: "directive \<Rightarrow> define_set \<Rightarrow> define_set" where
  "apply_directive (Additive n v) m = dict_setitem n v m"
| "apply_directive (Subtractive n) m = AList.delete n m"

text \<open>
  Modelled from the spec: the directives are applied in sequence order; the first
  malformed one fails the whole composition with its position.
\<close>

fun compose_from :: "nat \<Rightarrow> string list \<Rightarrow> define_set \<Rightarrow> resolve_error + define_set" where
  "compose_from i [] m = Inr m"
| "compose_from i (d # ds) m =
     (case parse_directive d of
        None \<Rightarrow> Inl (InvalidDefineError d i)
      | Some x \<Rightarrow> compose_from (Suc i) ds (apply_directive x m))"

text \<open>Modelled from the spec: composition starts with an empty mapping.\<close>

definition compose_defines :: "string list \<Rightarrow> resolve_error + define_set" where
  "compose_defines ds = compose_from 0 ds []"

text \<open>
  Modelled from the spec: the value given by the last additive directive for a name in
  a sequence, if there is one.
\<close>

fun last_additive :: "string \<Rightarrow> string list \<Rightarrow> string option option" where
  "last_additive n [] = None"
| "last_additive n (d # ds) =
     (case last_additive n ds of
        Some v \<Rightarrow> Some v
      | None \<Rightarrow>
          (case parse_directive d of
             Some (Additive n' v) \<Rightarrow> if n' = n then Some v else None
           | _ \<Rightarrow> None))"

text \<open>Modelled from the spec: what the build driver receives for a platform.\<close>

record resolved_profile =
  res_mcu :: string
  res_programmer :: string
  res_boardDirectory :: string
  composedDefines :: define_set
  res_squeeze :: "string list option"

text \<open>
  Modelled from the spec: \<^verbatim>\<open>resolve\<close> looks the id up in the merged registry and passes
  the profile's defines through composition. The source holds the registry only.
\<close>

definition resolve :: "registry \<Rightarrow> string \<Rightarrow> resolve_error + resolved_profile" where
  "resolve reg platformId =
     (case map_of reg platformId of
        None \<Rightarrow> Inl (UnknownPlatformError platformId)
      | Some p \<Rightarrow>
          (case compose_defines (defines p) of
             Inl e \<Rightarrow> Inl e
           | Inr m \<Rightarrow>
               Inr \<lparr>res_mcu = mcu p, res_programmer = programmer p,
                    res_boardDirectory = board_directory p, composedDefines = m,
                    res_squeeze = squeeze p\<rparr>))"

section \<open>Concrete inputs\<close>

text \<open>
  The site file of the header comment of \<^verbatim>\<open>platforms.py\<close>: the single statement
  \<^verbatim>\<open>platforms['franken-board'] = { ... }\<close>, which needs the name \<^verbatim>\<open>platforms\<close> bound.
\<close>

definition franken_board :: profile where
  "franken_board =
     \<lparr>mcu = ''atmega2560'', programmer = ''stk500v2'', board_directory = ''mighty_one'',
      defines = [''CORE_XY'', ''BUILD_STATS'', ''ALTERNATE_UART'', ''HEATERS_ON_STEROIDS'',
        ''MAX31855'', ''__DELAY_BACKWARD_COMPATIBLE__'', ''__PROG_TYPES_COMPAT__''],
      squeeze = None\<rparr>"

definition franken_site :: site_code where
  "franken_site g =
     (case dict_getitem g ''platforms'' of
        Inl e \<Rightarrow> Inl (Exn ''NameError'' ''platforms'')
      | Inr d \<Rightarrow> Inr (dict_setitem ''platforms'' (dict_setitem ''franken-board'' franken_board d) g))"

definition franken_env :: environment where
  "franken_env =
     \<lparr>home_dir = ''/home/user'',
      files = (\<lambda>path. if path = ''/home/user/.sailfish_platforms.py'' then Some franken_site
                       else None)\<rparr>"

text \<open>A site file that is not Python: compiling it raises before any statement runs.\<close>

definition broken_site :: site_code where
  "broken_site g = Inl (Exn ''SyntaxError'' ''invalid syntax'')"

definition broken_env :: environment where
  "broken_env =
     \<lparr>home_dir = ''/home/user/'',
      files = (\<lambda>path. if path = ''/home/user/.sailfish_platforms.py'' then Some broken_site
                       else None)\<rparr>"

text \<open>A home directory without a site file.\<close>

definition plain_env :: environment where
  "plain_env = \<lparr>home_dir = ''/home/user'', files = (\<lambda>path. None)\<rparr>"

text \<open>A small state: one platform \<^verbatim>\<open>X\<close> stored at address 3.\<close>

definition profile_m1 :: profile where
  "profile_m1 =
     \<lparr>mcu = ''m1'', programmer = ''p1'', board_directory = ''b1'', defines = [''A'', ''B=1''],
      squeeze = Some [''Menu.cc'']\<rparr>"

definition profile_m2 :: profile where
  "profile_m2 =
     \<lparr>mcu = ''m2'', programmer = ''p2'', board_directory = ''b2'', defines = [''C''],
      squeeze = None\<rparr>"

definition small_state :: module_state where
  "small_state =
     \<lparr>heap = (\<lambda>a. [])(3 := [(''X'', profile_m1), (''W'', profile_m1)]),
      platforms_var = 3\<rparr>"

definition small_extension :: registry where
  "small_extension = [(''X'', profile_m2), (''Y'', profile_m2)]"

text \<open>A registry whose only platform lists a directive with an empty name.\<close>

definition unnamed_define_registry :: registry where
  "unnamed_define_registry =
     [(''odd-board'',
       \<lparr>mcu = ''atmega1280'', programmer = ''stk500v1'', board_directory = ''mighty_one'',
        defines = [''BUILD_STATS'', ''=1''], squeeze = None\<rparr>)]"


definition index_list_program :: site_program where
  "index_list_program ns = Inr (dict_setitem ''platforms'' (PyList [PyInt 0, PyInt 5]) ns)"



definition site_environment :: "site_program \<Rightarrow> value_environment" where
  "site_environment program =
     \<lparr>v_home_dir = ''/home/user'',
      v_files = (\<lambda>path. if path = ''/home/user/.sailfish_platforms.py'' then Some program
                        else None)\<rparr>"

definition initial_value_state :: value_state where
  "initial_value_state = state_value initial_state"

text \<open>
  The define set expected for \<^verbatim>\<open>wanhao_dup4-hyper-zmax\<close>, whose list names
  \<^verbatim>\<open>USE_ZMAX_HOME\<close> twice.
\<close>

definition wanhao_dup4_hyper_zmax_composed :: define_set where
  "wanhao_dup4_hyper_zmax_composed =
     [(''AUTO_LEVEL'', None), (''PSTOP_ZMIN_LEVEL'', None),
      (''AUTO_LEVEL_IGNORE_ZMIN_ONBUILD'', None), (''USE_ZMAX_HOME'', None),
      (''BUILD_STATS'', None), (''HEATERS_ON_STEROIDS'', None), (''COOLING_FAN_PWM'', None),
      (''PLATFORM_SPLASH1_MSG'', Some (bsq @ ''SF-Wanhao Dup4'' @ bsq)),
      (''PLATFORM_THE_REPLICATOR_STR'', Some (bsq @ ''Wanhao Duplicatr'' @ bsq)),
      (''PLATFORM_TOOLHEAD_OFFSET_X'', Some ''3201''),
      (''PLATFORM_X_OFFSET_STEPS'', Some ''13763L''),
      (''PLATFORM_Y_OFFSET_STEPS'', Some ''6919L''), (''HAS_RGB_LED'', None),
      (''EEPROM_MENU_ENABLE'', None)]"

section \<open>Reading the listing back\<close>

text \<open>
  The words of the listing's description: the ids joined by single blanks, nothing after
  the last one.
\<close>

fun space_separated :: "string list \<Rightarrow> string" where
  "space_separated [] = []"
| "space_separated [k] = k"
| "space_separated (k # k' # ks) = k @ '' '' @ space_separated (k' # ks)"

text \<open>The fields of a line between single blanks, as \<^verbatim>\<open>str.split(' ')\<close> returns them.\<close>

fun split_blank :: "string \<Rightarrow> string list" where
  "split_blank [] = [[]]"
| "split_blank (c # cs) =
     (if c = CHR '' '' then [] # split_blank cs
      else (case split_blank cs of [] \<Rightarrow> [[c]] | w # ws \<Rightarrow> (c # w) # ws))"

section \<open>Properties of the merge loop\<close>

text \<open>The content that the loop leaves in the object named by \<^verbatim>\<open>platforms\<close>.\<close>

lemma merge_keys_heap:
  "set keys \<subseteq> set (dict_keys tmp) \<Longrightarrow>
   merge_keys keys tmp s =
     (None, s\<lparr>heap := (heap s)(platforms_var s :=
        fold (\<lambda>k d. AList.update k (the (map_of tmp k)) d) keys (heap s (platforms_var s)))\<rparr>)"
proof (induction keys arbitrary: s)
  case Nil
  show ?case by simp
next
  case (Cons key keys)
  from Cons.prems have "key \<in> fst ` set tmp" by (simp add: dict_keys_def)
  then obtain v where v: "map_of tmp key = Some v"
    by (metis domD dom_map_of_conv_image_fst)
  from Cons.prems have sub: "set keys \<subseteq> set (dict_keys tmp)" by simp
  have "merge_keys (key # keys) tmp s = merge_keys keys tmp (platforms_setitem key v s)"
    using v by (simp add: dict_getitem_def)
  also have "\<dots> = (None, (platforms_setitem key v s)\<lparr>heap := (heap (platforms_setitem key v s))
      (platforms_var (platforms_setitem key v s) :=
        fold (\<lambda>k d. AList.update k (the (map_of tmp k)) d) keys
          (heap (platforms_setitem key v s) (platforms_var (platforms_setitem key v s))))\<rparr>)"
    by (rule Cons.IH [OF sub])
  also have "\<dots> = (None, s\<lparr>heap := (heap s)(platforms_var s :=
        fold (\<lambda>k d. AList.update k (the (map_of tmp k)) d) (key # keys) (heap s (platforms_var s)))\<rparr>)"
    using v by (simp add: platforms_setitem_def dict_setitem_def)
  finally show ?case .
qed

lemma merge_platforms_heap:
  "merge_platforms tmp s =
     (None, s\<lparr>heap := (heap s)(platforms_var s :=
        fold (\<lambda>k d. AList.update k (the (map_of tmp k)) d) (dict_keys tmp)
          (current_platforms s))\<rparr>)"
  unfolding merge_platforms_def current_platforms_def by (rule merge_keys_heap) simp

lemma map_of_fold_update:
  "map_of (fold (\<lambda>k d. AList.update k (f k) d) keys ps) k =
     (if k \<in> set keys then Some (f k) else map_of ps k)"
  by (induction keys arbitrary: ps) (auto simp: update_conv')

lemma keys_fold_update:
  "fst ` set (fold (\<lambda>k d. AList.update k (f k) d) keys ps) = fst ` set ps \<union> set keys"
proof (induction keys arbitrary: ps)
  case Nil
  show ?case by simp
next
  case (Cons k keys)
  show ?case by (simp add: Cons.IH dom_update)
qed

lemma distinct_fold_update:
  "distinct (map fst ps) \<Longrightarrow> distinct (map fst (fold (\<lambda>k d. AList.update k (f k) d) keys ps))"
  by (induction keys arbitrary: ps) (auto simp: distinct_update)

lemma fold_update_same:
  "\<forall>k \<in> set keys. map_of ps k = Some (f k) \<Longrightarrow> fold (\<lambda>k d. AList.update k (f k) d) keys ps = ps"
  by (induction keys arbitrary: ps) (auto simp: update_triv)

lemma merged_lookup:
  "map_of (current_platforms (snd (merge_platforms tmp s))) k =
     (case map_of tmp k of None \<Rightarrow> map_of (current_platforms s) k | Some p \<Rightarrow> Some p)"
proof (cases "map_of tmp k")
  case None
  then have "k \<notin> set (dict_keys tmp)"
    by (simp add: dict_keys_def map_of_eq_None_iff)
  with None show ?thesis
    by (simp add: merge_platforms_heap current_platforms_def map_of_fold_update)
next
  case (Some p)
  then have "k \<in> set (dict_keys tmp)"
    by (metis dict_keys_def map_of_eq_None_iff option.distinct(1) set_map)
  with Some show ?thesis
    by (simp add: merge_platforms_heap current_platforms_def map_of_fold_update)
qed

lemma merged_keys:
  "set (dict_keys (current_platforms (snd (merge_platforms tmp s)))) =
     set (dict_keys (current_platforms s)) \<union> set (dict_keys tmp)"
  by (simp add: merge_platforms_heap current_platforms_def dict_keys_def keys_fold_update)

lemma merged_distinct:
  "distinct (dict_keys (current_platforms s)) \<Longrightarrow>
   distinct (dict_keys (current_platforms (snd (merge_platforms tmp s))))"
  by (simp add: merge_platforms_heap current_platforms_def dict_keys_def distinct_fold_update)

lemma merge_platforms_frame:
  "platforms_var (snd (merge_platforms tmp s)) = platforms_var s"
  "a \<noteq> platforms_var s \<Longrightarrow> heap (snd (merge_platforms tmp s)) a = heap s a"
  "fst (merge_platforms tmp s) = None"
  by (simp_all add: merge_platforms_heap)

text \<open>
  C2: for every extension mapping and every platform id in it, the merged registry maps
  the id to exactly the extension's profile, replacing a baseline entry of that id as a
  whole or adding the id to the known ids; every id that the extension does not mention
  keeps the profile it had. The loop raises nothing.
\<close>

theorem merge_replaces_whole_profile:
  "fst (merge_platforms ext s) = None \<and>
   (map_of ext pid = Some p \<longrightarrow>
      map_of (current_platforms (snd (merge_platforms ext s))) pid = Some p \<and>
      pid \<in> set (dict_keys (current_platforms (snd (merge_platforms ext s))))) \<and>
   (map_of ext pid = None \<longrightarrow>
      map_of (current_platforms (snd (merge_platforms ext s))) pid
        = map_of (current_platforms s) pid)"
proof -
  have "map_of ext pid = Some p \<Longrightarrow> pid \<in> set (dict_keys ext)"
    by (metis dict_keys_def map_of_eq_None_iff option.distinct(1) set_map)
  then show ?thesis
    by (simp add: merge_platforms_frame merged_lookup merged_keys)
qed

theorem merge_replaces_whole_profile_witness:
  "map_of small_extension ''X'' = Some profile_m2 \<and>
   map_of (current_platforms small_state) ''X'' = Some profile_m1 \<and>
   squeeze profile_m1 = Some [''Menu.cc''] \<and>
   map_of (current_platforms (snd (merge_platforms small_extension small_state))) ''X''
     = Some profile_m2 \<and>
   squeeze profile_m2 = None \<and>
   map_of small_extension ''Y'' = Some profile_m2 \<and>
   map_of (current_platforms small_state) ''Y'' = None \<and>
   ''Y'' \<in> set (dict_keys (current_platforms (snd (merge_platforms small_extension small_state)))) \<and>
   map_of small_extension ''W'' = None \<and>
   map_of (current_platforms (snd (merge_platforms small_extension small_state))) ''W''
     = Some profile_m1"
  using merge_replaces_whole_profile [of small_extension small_state "''X''" profile_m2]
    merge_replaces_whole_profile [of small_extension small_state "''Y''" profile_m2]
    merge_replaces_whole_profile [of small_extension small_state "''W''" profile_m2]
  by (simp add: small_extension_def small_state_def current_platforms_def profile_m1_def
      profile_m2_def)

text \<open>
  C10: the merge is idempotent. Merging the same extension mapping a second time gives
  exactly the outcome and the state of merging it once.
\<close>

theorem merge_idempotent:
  "merge_platforms ext (snd (merge_platforms ext s)) = merge_platforms ext s"
proof -
  let ?f = "\<lambda>k. the (map_of ext k)"
  let ?m = "fold (\<lambda>k d. AList.update k (?f k) d) (dict_keys ext) (current_platforms s)"
  have "\<forall>k \<in> set (dict_keys ext). map_of ?m k = Some (?f k)"
    by (simp add: map_of_fold_update)
  then have same: "fold (\<lambda>k d. AList.update k (?f k) d) (dict_keys ext) ?m = ?m"
    by (rule fold_update_same)
  show ?thesis
    by (simp add: merge_platforms_heap [of ext] current_platforms_def same [unfolded current_platforms_def])
qed

section \<open>Properties of the dictionary display\<close>

lemmas platform_defs =
  platform_mighty_one_hyper_zmax_def platform_mighty_one_hyper_def platform_mighty_one_def
  platform_mighty_one_architect_hyper_zmax_def platform_mighty_one_architect_hyper_def
  platform_mighty_one_architect_def platform_mighty_one_corexy_hyper_zmax_def
  platform_mighty_one_corexy_hyper_def platform_mighty_one_corexy_def
  platform_mighty_one_2560_zmax_def platform_mighty_one_2560_def
  platform_CTC_BizerMod_2560_zmax_def platform_CTC_BizerMod_2560_def
  platform_CTC_BondtechDualDrive_2560_def platform_mighty_one_2560_corexy_zmax_def
  platform_mighty_one_2560_corexy_def platform_mighty_one_2560_clone_r1_zmax_def
  platform_mighty_one_2560_clone_r1_def platform_mighty_one_2560_max31855_corexy_zmax_def
  platform_mighty_one_2560_max31855_corexy_def platform_mighty_one_2560_max31855_zmax_def
  platform_mighty_one_2560_max31855_def platform_mighty_two_hyper_zmax_def
  platform_mighty_two_hyper_def platform_mighty_two_corexy_hyper_zmax_def
  platform_mighty_two_corexy_hyper_def platform_mighty_two_def platform_mighty_two_corexy_def
  platform_mighty_two_2560_zmax_def platform_mighty_two_2560_def
  platform_mighty_twox_hyper_zmax_def platform_mighty_twox_hyper_def platform_mighty_twox_def
  platform_mighty_twox_2560_zmax_def platform_mighty_twox_2560_def
  platform_ff_creator_hyper_zmax_def platform_ff_creator_hyper_def platform_ff_creator_def
  platform_ff_creator_2560_zmax_def platform_ff_creator_2560_def
  platform_ff_creatorx_2560_zmax_def platform_ff_creatorx_2560_def
  platform_wanhao_dup4_hyper_zmax_def platform_wanhao_dup4_hyper_def
  platform_zyyx_1280_hyper_def platform_wanhao_dup4_def platform_zyyx_1280_def
  platform_zyyx_2560_def platform_zyyx_dual_2560_def platform_azteeg_x3_xymax_def
  platform_azteeg_x3_xymax_corexy_def platform_azteeg_x3_xymin_def
  platform_azteeg_x3_xymin_corexy_def

lemma setitem_keys: "fst ` set (dict_setitem k v d) = insert k (fst ` set d)"
  by (simp add: dict_setitem_def dom_update)

lemma fold_setitem_keys:
  "fst ` set (fold (\<lambda>(k, v). dict_setitem k v) es d) = fst ` set d \<union> fst ` set es"
proof (induction es arbitrary: d)
  case Nil
  show ?case by simp
next
  case (Cons e es)
  show ?case by (cases e) (simp add: Cons.IH setitem_keys)
qed

lemma fold_setitem_distinct:
  "distinct (map fst d) \<Longrightarrow> distinct (map fst (fold (\<lambda>(k, v). dict_setitem k v) es d))"
proof (induction es arbitrary: d)
  case Nil
  then show ?case by simp
next
  case (Cons e es)
  then show ?case by (cases e) (simp add: dict_setitem_def distinct_update)
qed

lemma fold_setitem_lookup:
  "map_of (fold (\<lambda>(k, v). dict_setitem k v) es d) k = Some p \<Longrightarrow>
   (k, p) \<in> set es \<or> map_of d k = Some p"
proof (induction es arbitrary: d)
  case Nil
  then show ?case by simp
next
  case (Cons e es)
  obtain k' v' where e: "e = (k', v')" by (cases e)
  from Cons.prems e
  have "(k, p) \<in> set es \<or> map_of (dict_setitem k' v' d) k = Some p"
    using Cons.IH [of "dict_setitem k' v' d"] by simp
  then show ?case
    using e by (auto simp: dict_setitem_def update_conv' split: if_splits)
qed

lemma dict_literal_keys: "set (dict_keys (dict_literal es)) = fst ` set es"
  by (simp add: dict_literal_def dict_keys_def fold_setitem_keys)

lemma dict_literal_distinct: "distinct (dict_keys (dict_literal es))"
  by (simp add: dict_literal_def dict_keys_def fold_setitem_distinct)

lemma dict_literal_lookup: "map_of (dict_literal es) k = Some p \<Longrightarrow> (k, p) \<in> set es"
  using fold_setitem_lookup [of es "[]" k p] by (simp add: dict_literal_def)

lemma key_has_value: "k \<in> set (dict_keys d) \<Longrightarrow> \<exists>v. map_of d k = Some v"
  by (metis dict_keys_def map_of_eq_None_iff not_Some_eq set_map)

lemma value_has_key: "map_of d k = Some v \<Longrightarrow> k \<in> set (dict_keys d)"
  by (metis dict_keys_def map_of_eq_None_iff option.distinct(1) set_map)

lemma current_initial: "current_platforms initial_state = platforms"
  by (simp add: current_platforms_def initial_state_def)

section \<open>Properties of the site file load\<close>

lemma load_absent:
  "site_file (home_dir env) = Inr path \<Longrightarrow> files env path = None \<Longrightarrow>
   load_site_platforms env s = (None, s)"
  by (simp add: load_site_platforms_def)

lemma load_raises:
  "site_file (home_dir env) = Inr path \<Longrightarrow> files env path = Some code \<Longrightarrow>
   code [(''platforms'', [])] = Inl e \<Longrightarrow> load_site_platforms env s = (Some e, s)"
  by (simp add: load_site_platforms_def)

lemma load_merges:
  "site_file (home_dir env) = Inr path \<Longrightarrow> files env path = Some code \<Longrightarrow>
   code [(''platforms'', [])] = Inr g \<Longrightarrow> map_of g ''platforms'' = Some ext \<Longrightarrow>
   load_site_platforms env s = merge_platforms ext s"
proof -
  assume a: "site_file (home_dir env) = Inr path" "files env path = Some code"
    "code [(''platforms'', [])] = Inr g" "map_of g ''platforms'' = Some ext"
  from a(4) have "dict_contains ''platforms'' g"
    by (metis dict_contains_def dict_keys_def map_of_eq_None_iff option.distinct(1) set_map)
  with a show ?thesis
    by (simp add: load_site_platforms_def dict_getitem_def)
qed

lemma load_frame:
  "platforms_var (snd (load_site_platforms env s)) = platforms_var s \<and>
   (a \<noteq> platforms_var s \<longrightarrow> heap (snd (load_site_platforms env s)) a = heap s a)"
  by (simp add: load_site_platforms_def merge_platforms_frame dict_getitem_def
      split: sum.split option.split)

lemma franken_load:
  "load_site_platforms franken_env s = merge_platforms [(''franken-board'', franken_board)] s"
  by (rule load_merges [where path = "''/home/user/.sailfish_platforms.py''"
        and code = franken_site
        and g = "[(''platforms'', [(''franken-board'', franken_board)])]"])
     (simp_all add: franken_env_def site_file_def franken_site_def dict_getitem_def
        dict_setitem_def)

lemma franken_not_builtin: "''franken-board'' \<notin> set (dict_keys platforms)"
  unfolding platforms_def dict_literal_keys platforms_literal_def by simp

text \<open>
  C7: the absence of the site file is not an error. When the home directory expands to
  a path and no regular file exists at the site file's place under it, the load raises
  nothing and leaves the state as it was, so that the registry is the built-in one.
\<close>

theorem absent_site_file_keeps_baseline:
  assumes "site_file (home_dir env) = Inr path" and "\<not> isfile env path"
  shows "load_site_platforms env s = (None, s) \<and>
         current_platforms (snd (load_site_platforms env initial_state)) = platforms"
proof -
  from assms(2) have none: "files env path = None" by (simp add: isfile_def)
  have "load_site_platforms env s = (None, s)"
    and "load_site_platforms env initial_state = (None, initial_state)"
    using assms(1) none by (rule load_absent)+
  then show ?thesis by (simp add: current_initial)
qed

theorem absent_site_file_keeps_baseline_witness:
  "site_file (home_dir plain_env) = Inr ''/home/user/.sailfish_platforms.py'' \<and>
   \<not> isfile plain_env ''/home/user/.sailfish_platforms.py'' \<and>
   load_site_platforms plain_env small_state = (None, small_state) \<and>
   current_platforms (snd (load_site_platforms plain_env initial_state)) = platforms"
proof -
  have p: "site_file (home_dir plain_env) = Inr ''/home/user/.sailfish_platforms.py''"
    by (simp add: plain_env_def site_file_def)
  have n: "\<not> isfile plain_env ''/home/user/.sailfish_platforms.py''"
    by (simp add: plain_env_def isfile_def)
  show ?thesis
    using p n absent_site_file_keeps_baseline [OF p n, of small_state] by simp
qed

text \<open>
  C3, as stated, fails: with the site file of the header comment, the name
  \<^verbatim>\<open>platforms\<close> still refers to the object of the display, and that object has changed.
\<close>

theorem merge_mutates_baseline_object:
  "platforms_var (snd (load_site_platforms franken_env initial_state))
     = platforms_var initial_state \<and>
   heap (snd (load_site_platforms franken_env initial_state)) (platforms_var initial_state)
     \<noteq> heap initial_state (platforms_var initial_state)"
proof -
  let ?s = "snd (load_site_platforms franken_env initial_state)"
  have var: "platforms_var ?s = platforms_var initial_state"
    by (simp add: load_frame)
  have "''franken-board'' \<in> set (dict_keys (current_platforms ?s))"
    by (simp add: franken_load merged_keys) (simp add: dict_keys_def)
  then have "''franken-board'' \<in> set (dict_keys (heap ?s (platforms_var initial_state)))"
    by (simp add: current_platforms_def var)
  moreover have "''franken-board'' \<notin> set (dict_keys (heap initial_state (platforms_var initial_state)))"
    using franken_not_builtin current_initial by (simp add: current_platforms_def)
  ultimately show ?thesis using var by metis
qed

section \<open>Properties of the load on Python values\<close>

lemma getitem_hashable: "py_getitem v k = Inr x \<Longrightarrow> hashable k"
  by (induction v k rule: py_getitem.induct) (auto split: if_splits)



text \<open>
  The loop assigns the entries of a first part of the keys, all of which can be
  subscripted, and stops at the first key that cannot, with the exception of that
  subscript.
\<close>

lemma merge_values_keys_outcome:
  "\<exists>assigned rest. keys = assigned @ rest \<and>
     list_all (\<lambda>k. \<exists>x. py_getitem v k = Inr x) assigned \<and>
     snd (merge_values_keys keys v s) =
       s\<lparr>objects := (objects s)(platforms_ref s :=
           fold (\<lambda>k d. case py_getitem v k of Inl e \<Rightarrow> d | Inr x \<Rightarrow> AList.update k x d)
             assigned (objects s (platforms_ref s)))\<rparr> \<and>
     (case rest of
        [] \<Rightarrow> fst (merge_values_keys keys v s) = None
      | k # rest' \<Rightarrow> \<exists>e. py_getitem v k = Inl e \<and> fst (merge_values_keys keys v s) = Some e)"
proof (induction keys arbitrary: s)
  case Nil
  have "[] = [] @ ([]::pyval list) \<and>
     list_all (\<lambda>k. \<exists>x. py_getitem v k = Inr x) [] \<and>
     snd (merge_values_keys [] v s) =
       s\<lparr>objects := (objects s)(platforms_ref s :=
           fold (\<lambda>k d. case py_getitem v k of Inl e \<Rightarrow> d | Inr x \<Rightarrow> AList.update k x d)
             [] (objects s (platforms_ref s)))\<rparr> \<and>
     (case ([]::pyval list) of
        [] \<Rightarrow> fst (merge_values_keys [] v s) = None
      | k # rest' \<Rightarrow> \<exists>e. py_getitem v k = Inl e \<and> fst (merge_values_keys [] v s) = Some e)"
    by simp
  then show ?case by blast
next
  case (Cons key keys)
  show ?case
  proof (cases "py_getitem v key")
    case (Inl e)
    then have "key # keys = [] @ (key # keys) \<and>
       list_all (\<lambda>k. \<exists>x. py_getitem v k = Inr x) [] \<and>
       snd (merge_values_keys (key # keys) v s) =
         s\<lparr>objects := (objects s)(platforms_ref s :=
             fold (\<lambda>k d. case py_getitem v k of Inl e \<Rightarrow> d | Inr x \<Rightarrow> AList.update k x d)
               [] (objects s (platforms_ref s)))\<rparr> \<and>
       (case key # keys of
          [] \<Rightarrow> fst (merge_values_keys (key # keys) v s) = None
        | k # rest' \<Rightarrow>
            \<exists>e. py_getitem v k = Inl e \<and> fst (merge_values_keys (key # keys) v s) = Some e)"
      by simp
    then show ?thesis by blast
  next
    case (Inr x)
    define s1 where "s1 = s\<lparr>objects := (objects s)(platforms_ref s :=
        AList.update key x (objects s (platforms_ref s)))\<rparr>"
    from Inr have h: "hashable key" by (rule getitem_hashable)
    with Inr have step: "merge_values_keys (key # keys) v s = merge_values_keys keys v s1"
      by (simp add: value_setitem_def s1_def)
    from Cons.IH [of s1] obtain assigned rest where dr: "keys = assigned @ rest"
      "list_all (\<lambda>k. \<exists>x. py_getitem v k = Inr x) assigned"
      "snd (merge_values_keys keys v s1) =
         s1\<lparr>objects := (objects s1)(platforms_ref s1 :=
             fold (\<lambda>k d. case py_getitem v k of Inl e \<Rightarrow> d | Inr x \<Rightarrow> AList.update k x d)
               assigned (objects s1 (platforms_ref s1)))\<rparr>"
      "case rest of
          [] \<Rightarrow> fst (merge_values_keys keys v s1) = None
        | k # rest' \<Rightarrow> \<exists>e. py_getitem v k = Inl e \<and> fst (merge_values_keys keys v s1) = Some e"
      by blast
    have "key # keys = (key # assigned) @ rest"
      using dr(1) by simp
    moreover have "list_all (\<lambda>k. \<exists>x. py_getitem v k = Inr x) (key # assigned)"
      using dr(2) Inr by simp
    moreover have "snd (merge_values_keys (key # keys) v s) =
         s\<lparr>objects := (objects s)(platforms_ref s :=
             fold (\<lambda>k d. case py_getitem v k of Inl e \<Rightarrow> d | Inr x \<Rightarrow> AList.update k x d)
               (key # assigned) (objects s (platforms_ref s)))\<rparr>"
      using dr(3) Inr unfolding step by (simp add: s1_def)
    moreover have "case rest of
          [] \<Rightarrow> fst (merge_values_keys (key # keys) v s) = None
        | k # rest' \<Rightarrow>
            \<exists>e. py_getitem v k = Inl e \<and> fst (merge_values_keys (key # keys) v s) = Some e"
      using dr(4) unfolding step by simp
    ultimately show ?thesis by blast
  qed
qed





lemma registry_value_lookup:
  "map_of (registry_value r) (PyStr k) = map_option profile_value (map_of r k)"
  "map_of (registry_value r) (PyInt i) = None"
  by (induction r) (auto simp: registry_value_def)

text \<open>
  The loader on mappings is the loader on Python values restricted to site files that
  leave \<^verbatim>\<open>platforms\<close> bound to a mapping from ids to profiles.
\<close>

lemma update_registry_value:
  "AList.update (PyStr k) (profile_value p) (registry_value d)
     = registry_value (AList.update k p d)"
  by (induction d) (auto simp: registry_value_def)

lemma setitem_state_value:
  "value_setitem (PyStr key) (profile_value v) (state_value s)
     = Inr (state_value (platforms_setitem key v s))"
  by (auto simp: value_setitem_def state_value_def platforms_setitem_def dict_setitem_def
      update_registry_value fun_eq_iff)

lemma merge_values_keys_typed:
  "set keys \<subseteq> set (dict_keys ext) \<Longrightarrow>
   merge_values_keys (map PyStr keys) (PyDict (registry_value ext)) (state_value s)
     = (fst (merge_keys keys ext s), state_value (snd (merge_keys keys ext s)))"
proof (induction keys arbitrary: s)
  case Nil
  show ?case by simp
next
  case (Cons key keys)
  from Cons.prems obtain v where v: "map_of ext key = Some v"
    using key_has_value [of key ext] by auto
  from Cons.prems have sub: "set keys \<subseteq> set (dict_keys ext)" by simp
  show ?case
    using v Cons.IH [OF sub, of "platforms_setitem key v s"]
    by (simp add: registry_value_lookup setitem_state_value dict_getitem_def)
qed

lemma merge_values_typed:
  "merge_values (PyDict (registry_value ext)) (state_value s)
     = (fst (merge_platforms ext s), state_value (snd (merge_platforms ext s)))"
proof -
  have "map fst (registry_value ext) = map PyStr (dict_keys ext)"
    by (induction ext) (auto simp: registry_value_def dict_keys_def)
  then show ?thesis
    using merge_values_keys_typed [of "dict_keys ext" ext s]
    by (simp add: merge_values_def merge_platforms_def)
qed

lemma namespace_value_lookup:
  "map_of (namespace_value g) n = map_option (\<lambda>r. PyDict (registry_value r)) (map_of g n)"
  by (induction g) (auto simp: namespace_value_def)

lemma load_values_typed:
  assumes home: "v_home_dir venv = home_dir env"
    and absent: "\<And>path. files env path = None \<Longrightarrow> v_files venv path = None"
    and present: "\<And>path code. files env path = Some code \<Longrightarrow>
      \<exists>program. v_files venv path = Some program \<and>
        program [(''platforms'', PyDict [])] =
          (case code [(''platforms'', [])] of
             Inl e \<Rightarrow> Inl e
           | Inr g \<Rightarrow> Inr (namespace_value g))"
  shows "load_site_values venv (state_value s)
     = (fst (load_site_platforms env s), state_value (snd (load_site_platforms env s)))"
proof (cases "site_file (home_dir env)")
  case (Inl e)
  then show ?thesis
    by (simp add: load_site_values_def load_site_platforms_def home)
next
  case (Inr path)
  show ?thesis
  proof (cases "files env path")
    case None
    with Inr absent [OF None] show ?thesis
      by (simp add: load_site_values_def load_site_platforms_def home)
  next
    case (Some code)
    from present [OF Some] obtain program where p: "v_files venv path = Some program"
      "program [(''platforms'', PyDict [])] =
          (case code [(''platforms'', [])] of
             Inl e \<Rightarrow> Inl e
           | Inr g \<Rightarrow> Inr (namespace_value g))"
      by blast
    show ?thesis
    proof (cases "code [(''platforms'', [])]")
      case (Inl e)
      with Inr Some p show ?thesis
        by (simp add: load_site_values_def load_site_platforms_def home)
    next
      case (Inr g)
      have c: "dict_contains ''platforms'' (namespace_value g) = dict_contains ''platforms'' g"
        by (induction g) (auto simp: namespace_value_def dict_contains_def dict_keys_def)
      show ?thesis
      proof (cases "map_of g ''platforms''")
        case None
        then have "\<not> dict_contains ''platforms'' g"
          unfolding dict_contains_def using key_has_value by fastforce
        with \<open>site_file (home_dir env) = Inr path\<close> Some p Inr c show ?thesis
          by (simp add: load_site_values_def load_site_platforms_def home)
      next
        case (Some ext)
        then have "dict_contains ''platforms'' g"
          unfolding dict_contains_def by (rule value_has_key)
        with \<open>site_file (home_dir env) = Inr path\<close> \<open>files env path = Some code\<close>
          p Inr c Some show ?thesis
          by (simp add: load_site_values_def load_site_platforms_def home dict_getitem_def
              namespace_value_lookup merge_values_typed)
      qed
    qed
  qed
qed

lemma merge_values_keys_ref:
  "platforms_ref (snd (merge_values_keys keys v s)) = platforms_ref s"
proof -
  from merge_values_keys_outcome [of keys v s]
  obtain assigned where "snd (merge_values_keys keys v s) =
       s\<lparr>objects := (objects s)(platforms_ref s :=
           fold (\<lambda>k d. case py_getitem v k of Inl e \<Rightarrow> d | Inr x \<Rightarrow> AList.update k x d)
             assigned (objects s (platforms_ref s)))\<rparr>"
    by (elim exE conjE)
  then show ?thesis by simp
qed

lemma load_values_ref:
  "platforms_ref (snd (load_site_values env s)) = platforms_ref s"
  by (simp add: load_site_values_def merge_values_def merge_values_keys_ref dict_getitem_def
      split: sum.split option.split)

text \<open>
  C3, amended: the load produces the merged registry by changing the dictionary bound
  to \<^verbatim>\<open>platforms\<close> in place, and returns no new mapping. The variable keeps its
  address, on mappings and on Python values alike, and when the site file leaves
  \<^verbatim>\<open>platforms\<close> bound to an extension mapping, the object at that address holds the
  baseline overridden by that mapping.
\<close>

theorem merge_updates_in_place:
  "platforms_var (snd (load_site_platforms env s)) = platforms_var s \<and>
   platforms_ref (snd (load_site_values venv vs)) = platforms_ref vs \<and>
   (site_file (home_dir env) = Inr path \<and> files env path = Some code \<and>
    code [(''platforms'', [])] = Inr g \<and> map_of g ''platforms'' = Some ext \<longrightarrow>
      fst (load_site_platforms env s) = None \<and>
      map_of (heap (snd (load_site_platforms env s)) (platforms_var s))
        = map_of (heap s (platforms_var s)) ++ map_of ext)"
proof -
  have "map_of (current_platforms (snd (merge_platforms ext s)))
          = map_of (current_platforms s) ++ map_of ext"
    by (rule ext) (simp add: merged_lookup map_add_def)
  then have "map_of (heap (snd (merge_platforms ext s)) (platforms_var s))
          = map_of (heap s (platforms_var s)) ++ map_of ext"
    by (simp add: current_platforms_def merge_platforms_frame)
  then show ?thesis
    using load_frame [of env s] load_values_ref [of venv vs]
    by (auto simp: load_merges merge_platforms_frame)
qed

theorem merge_updates_in_place_witness:
  "platforms_var (snd (load_site_platforms franken_env small_state)) = 3 \<and>
   platforms_ref (snd (load_site_values (site_environment index_list_program)
                         initial_value_state))
     = platforms_ref initial_value_state \<and>
   site_file (home_dir franken_env) = Inr ''/home/user/.sailfish_platforms.py'' \<and>
   files franken_env ''/home/user/.sailfish_platforms.py'' = Some franken_site \<and>
   franken_site [(''platforms'', [])]
     = Inr [(''platforms'', [(''franken-board'', franken_board)])] \<and>
   map_of [(''platforms'', [(''franken-board'', franken_board)])] ''platforms''
     = Some [(''franken-board'', franken_board)] \<and>
   fst (load_site_platforms franken_env small_state) = None \<and>
   map_of (heap (snd (load_site_platforms franken_env small_state)) 3) ''franken-board''
     = Some franken_board \<and>
   map_of (heap (snd (load_site_platforms franken_env small_state)) 3) ''W''
     = Some profile_m1"
  using merge_updates_in_place [of franken_env small_state
      "site_environment index_list_program" initial_value_state
      "''/home/user/.sailfish_platforms.py''" franken_site
      "[(''platforms'', [(''franken-board'', franken_board)])]"
      "[(''franken-board'', franken_board)]"]
  by (simp add: small_state_def franken_env_def site_file_def franken_site_def
      dict_getitem_def dict_setitem_def map_add_def)




section \<open>Properties of the listing\<close>

lemma fold_blank_after:
  "fold (\<lambda>key list. list @ key @ '' '') ks acc = acc @ concat (map (\<lambda>k. k @ '' '') ks)"
  by (induction ks arbitrary: acc) simp_all

lemma main_list_concat: "main_list ps = concat (map (\<lambda>k. k @ '' '') (dict_keys ps))"
  by (simp add: main_list_def fold_blank_after)

lemma butlast_blank_after:
  "butlast (concat (map (\<lambda>k. k @ '' '') ks)) = space_separated ks"
proof (induction ks rule: space_separated.induct)
  case 1
  show ?case by simp
next
  case (2 k)
  show ?case by (simp add: butlast_append)
next
  case (3 k k' ks)
  have "concat (map (\<lambda>k. k @ '' '') (k' # ks)) \<noteq> []" by simp
  then have "butlast (k @ '' '' @ concat (map (\<lambda>k. k @ '' '') (k' # ks)))
      = k @ '' '' @ butlast (concat (map (\<lambda>k. k @ '' '') (k' # ks)))"
    by (simp add: butlast_append)
  with 3 show ?case by simp
qed

lemma split_blank_field:
  "CHR '' '' \<notin> set k \<Longrightarrow> split_blank (k @ CHR '' '' # rest) = k # split_blank rest"
  by (induction k) auto

lemma split_blank_single: "CHR '' '' \<notin> set k \<Longrightarrow> split_blank k = [k]"
  by (induction k) auto

lemma split_blank_separated:
  "ks \<noteq> [] \<Longrightarrow> list_all (\<lambda>k. CHR '' '' \<notin> set k) ks \<Longrightarrow>
   split_blank (space_separated ks) = ks"
proof (induction ks rule: space_separated.induct)
  case 1
  then show ?case by simp
next
  case (2 k)
  then show ?case by (simp add: split_blank_single)
next
  case (3 k k' ks)
  then show ?case by (simp add: split_blank_field)
qed

lemma platforms_distinct: "distinct (dict_keys platforms)"
  unfolding platforms_def by (rule dict_literal_distinct)

lemma load_outcome:
  "load_site_platforms env s0 = (None, s) \<Longrightarrow>
   s = s0 \<or> (\<exists>ext. s = snd (merge_platforms ext s0))"
  by (auto simp: load_site_platforms_def split: sum.splits option.splits if_splits)
     (metis snd_conv)+

lemma loaded_distinct:
  assumes "load_site_platforms env initial_state = (None, s)"
  shows "distinct (dict_keys (current_platforms s))"
  using load_outcome [OF assms] platforms_distinct merged_distinct [of initial_state]
  by (auto simp: current_initial)

lemma loaded_nonempty:
  assumes "load_site_platforms env initial_state = (None, s)"
  shows "dict_keys (current_platforms s) \<noteq> []"
proof -
  have "''mighty_one'' \<in> set (dict_keys platforms)"
    unfolding platforms_def dict_literal_keys platforms_literal_def by simp
  then have "''mighty_one'' \<in> set (dict_keys (current_platforms s))"
    using load_outcome [OF assms] merged_keys [of _ initial_state]
    by (auto simp: current_initial)
  then show ?thesis by auto
qed

text \<open>
  C9: after a load that raises nothing, the listing writes the ids of the merged
  registry joined by single blanks, with nothing after the last id but the newline of
  \<^verbatim>\<open>print\<close>. Every id is written once: the ids are pairwise distinct, and when none
  of them contains a blank, the fields of the line are the ids again.
\<close>

theorem listing_is_space_separated:
  assumes "load_site_platforms env initial_state = (None, s)"
  shows "main_stdout (current_platforms s)
           = space_separated (dict_keys (current_platforms s)) @ [CHR 0x0A] \<and>
         distinct (dict_keys (current_platforms s)) \<and>
         (list_all (\<lambda>k. CHR '' '' \<notin> set k) (dict_keys (current_platforms s)) \<longrightarrow>
            split_blank (space_separated (dict_keys (current_platforms s)))
              = dict_keys (current_platforms s))"
  using loaded_distinct [OF assms] loaded_nonempty [OF assms]
  by (simp add: main_stdout_def main_list_concat butlast_blank_after split_blank_separated)

theorem listing_is_space_separated_witness:
  "load_site_platforms plain_env initial_state = (None, initial_state) \<and>
   list_all (\<lambda>k. CHR '' '' \<notin> set k) (dict_keys (current_platforms initial_state)) \<and>
   main_stdout (current_platforms initial_state)
     = space_separated (dict_keys (current_platforms initial_state)) @ [CHR 0x0A] \<and>
   distinct (dict_keys (current_platforms initial_state)) \<and>
   split_blank (space_separated (dict_keys (current_platforms initial_state)))
     = dict_keys (current_platforms initial_state)"
proof -
  have l: "load_site_platforms plain_env initial_state = (None, initial_state)"
    by (simp add: load_site_platforms_def plain_env_def site_file_def)
  have "\<forall>k \<in> set (dict_keys platforms). CHR '' '' \<notin> set k"
    unfolding platforms_def dict_literal_keys platforms_literal_def by simp
  then have b: "list_all (\<lambda>k. CHR '' '' \<notin> set k) (dict_keys (current_platforms initial_state))"
    by (simp add: current_initial list_all_iff)
  show ?thesis
    using l b listing_is_space_separated [OF l] by simp
qed

section \<open>Properties of define composition\<close>

lemma split_bare: "CHR ''='' \<notin> set n \<Longrightarrow> split_name_value n = (n, None)"
  by (induction n) (auto simp: split_name_value_def)

lemma split_valued:
  "CHR ''='' \<notin> set n \<Longrightarrow> split_name_value (n @ CHR ''='' # v) = (n, Some v)"
  by (induction n) (auto simp: split_name_value_def)

lemma parse_additive:
  assumes "n \<noteq> []" and "CHR ''='' \<notin> set n" and "hd n \<noteq> CHR ''-''"
  shows "parse_directive n = Some (Additive n None)"
    and "parse_directive (n @ ''='' @ v) = Some (Additive n (Some v))"
proof -
  obtain c cs where n: "n = c # cs" using assms(1) by (cases n) auto
  with assms(3) have c: "c \<noteq> CHR ''-''" by simp
  show "parse_directive n = Some (Additive n None)"
    using assms(1,2) c split_bare [OF assms(2)] by (simp add: parse_directive_def n)
  have "parse_directive (c # cs @ CHR ''='' # v) = Some (Additive n (Some v))"
    using assms(1) c split_valued [OF assms(2), of v] by (simp add: parse_directive_def n)
  then show "parse_directive (n @ ''='' @ v) = Some (Additive n (Some v))"
    by (simp add: n)
qed

lemma parse_subtractive:
  assumes "n \<noteq> []" and "CHR ''='' \<notin> set n"
  shows "parse_directive (''-'' @ n) = Some (Subtractive n)"
    and "parse_directive (''-'' @ n @ ''='' @ v) = Some (Subtractive n)"
  using assms split_bare [OF assms(2)] split_valued [OF assms(2), of v]
  by (simp_all add: parse_directive_def)

lemma compose_from_snoc:
  "compose_from i (ds @ [d]) m0 =
     (case compose_from i ds m0 of
        Inl e \<Rightarrow> Inl e
      | Inr m \<Rightarrow>
          (case parse_directive d of
             None \<Rightarrow> Inl (InvalidDefineError d (i + length ds))
           | Some x \<Rightarrow> Inr (apply_directive x m)))"
  by (induction ds arbitrary: i m0) (auto split: option.split sum.split)

lemma compose_snoc:
  "compose_defines ds = Inr m \<Longrightarrow> parse_directive d = Some x \<Longrightarrow>
   compose_defines (ds @ [d]) = Inr (apply_directive x m)"
  by (simp add: compose_defines_def compose_from_snoc)

lemma apply_directive_distinct:
  "distinct (map fst m) \<Longrightarrow> distinct (map fst (apply_directive x m))"
  by (cases x) (simp_all add: dict_setitem_def distinct_update distinct_delete)

lemma compose_from_distinct:
  "distinct (map fst m0) \<Longrightarrow> compose_from i ds m0 = Inr m \<Longrightarrow> distinct (map fst m)"
proof (induction ds arbitrary: i m0)
  case Nil
  then show ?case by simp
next
  case (Cons d ds)
  then show ?case
    by (auto split: option.splits dest: apply_directive_distinct)
qed

lemma compose_from_last:
  "compose_from i ds m0 = Inr m \<Longrightarrow> map_of m n = Some v \<Longrightarrow>
   last_additive n ds = Some v \<or> (last_additive n ds = None \<and> map_of m0 n = Some v)"
proof (induction ds arbitrary: i m0)
  case Nil
  then show ?case by simp
next
  case (Cons d ds)
  from Cons.prems(1) obtain x where x: "parse_directive d = Some x"
    and rest: "compose_from (Suc i) ds (apply_directive x m0) = Inr m"
    by (auto split: option.splits)
  have later: "last_additive n (d # ds) = Some v" if "last_additive n ds = Some v"
    using that by simp
  have here: "last_additive n (d # ds) = Some v \<or>
      (last_additive n (d # ds) = None \<and> map_of m0 n = Some v)"
    if none: "last_additive n ds = None" and v: "map_of (apply_directive x m0) n = Some v"
  proof (cases x)
    case (Additive n' v')
    with none v x show ?thesis
      by (auto simp: dict_setitem_def update_conv' split: if_splits)
  next
    case (Subtractive n')
    with none v x show ?thesis
      by (auto simp: delete_conv' split: if_splits)
  qed
  from Cons.IH [OF rest Cons.prems(2)] later here show ?case by blast
qed

text \<open>
  C1: composition applies the directives in sequence order, starting from the empty
  mapping. After any sequence that composes to \<open>m\<close>, a further additive directive
  \<^verbatim>\<open>NAME\<close> or \<^verbatim>\<open>NAME=value\<close> inserts or overwrites the name (a bare name gets the
  no-value sentinel), and a further subtractive directive \<^verbatim>\<open>-NAME\<close> or
  \<^verbatim>\<open>-NAME=value\<close> removes the name, which changes nothing when the name is absent.
  The three examples of the specification compose as it says.
\<close>

theorem compose_applies_directives_in_order:
  assumes "compose_defines ds = Inr m" and "n \<noteq> []" and "CHR ''='' \<notin> set n"
  shows "compose_defines [] = Inr [] \<and>
    (hd n \<noteq> CHR ''-'' \<longrightarrow>
       compose_defines (ds @ [n]) = Inr (dict_setitem n None m) \<and>
       compose_defines (ds @ [n @ ''='' @ v]) = Inr (dict_setitem n (Some v) m)) \<and>
    compose_defines (ds @ [''-'' @ n]) = Inr (AList.delete n m) \<and>
    compose_defines (ds @ [''-'' @ n @ ''='' @ v]) = Inr (AList.delete n m) \<and>
    map_of (dict_setitem n x m) = (map_of m)(n \<mapsto> x) \<and>
    map_of (AList.delete n m) = (map_of m)(n := None) \<and>
    (n \<notin> set (dict_keys m) \<longrightarrow> AList.delete n m = m) \<and>
    compose_defines [''A'', ''-A''] = Inr [] \<and>
    compose_defines [''-A'', ''A''] = Inr [(''A'', None)] \<and>
    compose_defines [''A=1'', ''A=2''] = Inr [(''A'', Some ''2'')]"
proof -
  have empty: "compose_defines [] = Inr []"
    by (simp add: compose_defines_def)
  have add: "compose_defines (ds @ [n]) = Inr (dict_setitem n None m)"
    "compose_defines (ds @ [n @ ''='' @ v]) = Inr (dict_setitem n (Some v) m)"
    if "hd n \<noteq> CHR ''-''"
    using compose_snoc [OF assms(1) parse_additive(1) [OF assms(2,3) that]]
      compose_snoc [OF assms(1) parse_additive(2) [OF assms(2,3) that, of v]]
    by simp_all
  have sub: "compose_defines (ds @ [''-'' @ n]) = Inr (AList.delete n m)"
    "compose_defines (ds @ [''-'' @ n @ ''='' @ v]) = Inr (AList.delete n m)"
    using compose_snoc [OF assms(1) parse_subtractive(1) [OF assms(2,3)]]
      compose_snoc [OF assms(1) parse_subtractive(2) [OF assms(2,3), of v]]
    by simp_all
  have maps: "map_of (dict_setitem n x m) = (map_of m)(n \<mapsto> x)"
    "map_of (AList.delete n m) = (map_of m)(n := None)"
    by (simp_all add: dict_setitem_def update_conv' delete_conv')
  have absent: "AList.delete n m = m" if "n \<notin> set (dict_keys m)"
    using that by (simp add: dict_keys_def delete_notin_dom image_iff AList.delete_eq
        filter_id_conv) auto
  have ex: "compose_defines [''A'', ''-A''] = Inr []"
    "compose_defines [''-A'', ''A''] = Inr [(''A'', None)]"
    "compose_defines [''A=1'', ''A=2''] = Inr [(''A'', Some ''2'')]"
    by (simp_all add: compose_defines_def parse_directive_def split_name_value_def
        dict_setitem_def)
  from empty add sub maps absent ex show ?thesis by blast
qed

theorem compose_applies_directives_in_order_witness:
  "compose_defines [''B=1'', ''A''] = Inr [(''B'', Some ''1''), (''A'', None)] \<and>
   ''A'' \<noteq> [] \<and> CHR ''='' \<notin> set ''A'' \<and> hd ''A'' \<noteq> CHR ''-'' \<and>
   compose_defines ([''B=1'', ''A''] @ [''A''])
     = Inr (dict_setitem ''A'' None [(''B'', Some ''1''), (''A'', None)]) \<and>
   compose_defines ([''B=1'', ''A''] @ [''A'' @ ''='' @ ''2''])
     = Inr [(''B'', Some ''1''), (''A'', Some ''2'')] \<and>
   compose_defines ([''B=1'', ''A''] @ [''-'' @ ''A'']) = Inr [(''B'', Some ''1'')] \<and>
   compose_defines ([''B=1'', ''A''] @ [''-'' @ ''A'' @ ''='' @ ''2'']) = Inr [(''B'', Some ''1'')] \<and>
   ''C'' \<notin> set (dict_keys [(''B'', Some ''1''), (''A'', None)]) \<and>
   AList.delete ''C'' [(''B'', Some ''1''), (''A'', None)] = [(''B'', Some ''1''), (''A'', None)]"
proof -
  have c: "compose_defines [''B=1'', ''A''] = Inr [(''B'', Some ''1''), (''A'', None)]"
    by (simp add: compose_defines_def parse_directive_def split_name_value_def
        dict_setitem_def)
  have a: "''A'' \<noteq> []" "CHR ''='' \<notin> set ''A''" and b: "''C'' \<noteq> []" "CHR ''='' \<notin> set ''C''"
    by simp_all
  show ?thesis
    using c compose_applies_directives_in_order [OF c a, of "''2''" "None"]
      compose_applies_directives_in_order [OF c b, of "''2''" "None"]
    by (simp add: dict_setitem_def dict_keys_def)
qed

text \<open>
  C8: in the composed define set of any defines sequence, every name occurs once, and
  the value kept for a name is the one given by the last additive directive for that
  name in the sequence. The list of \<^verbatim>\<open>wanhao_dup4-hyper-zmax\<close>, which repeats a symbol,
  is the concrete case.
\<close>

theorem composed_names_unique:
  assumes "compose_defines ds = Inr m"
  shows "distinct (dict_keys m) \<and>
         ((n, v) \<in> set m \<longrightarrow> map_of m n = Some v \<and> last_additive n ds = Some v)"
proof -
  have d: "distinct (map fst m)"
    using compose_from_distinct [of "[]" 0 ds m] assms by (simp add: compose_defines_def)
  have "last_additive n ds = Some v" if "map_of m n = Some v"
    using compose_from_last [of 0 ds "[]" m n v] assms that
    by (simp add: compose_defines_def)
  with d show ?thesis by (simp add: dict_keys_def)
qed

theorem composed_names_unique_witness:
  "count_list (defines platform_wanhao_dup4_hyper_zmax) ''USE_ZMAX_HOME'' = 2 \<and>
   compose_defines (defines platform_wanhao_dup4_hyper_zmax)
     = Inr wanhao_dup4_hyper_zmax_composed \<and>
   distinct (dict_keys wanhao_dup4_hyper_zmax_composed) \<and>
   count_list (dict_keys wanhao_dup4_hyper_zmax_composed) ''USE_ZMAX_HOME'' = 1 \<and>
   (''PLATFORM_TOOLHEAD_OFFSET_X'', Some ''3201'') \<in> set wanhao_dup4_hyper_zmax_composed \<and>
   last_additive ''PLATFORM_TOOLHEAD_OFFSET_X'' (defines platform_wanhao_dup4_hyper_zmax)
     = Some (Some ''3201'')"
proof -
  have c: "compose_defines (defines platform_wanhao_dup4_hyper_zmax)
      = Inr wanhao_dup4_hyper_zmax_composed"
    by (simp add: platform_wanhao_dup4_hyper_zmax_def wanhao_dup4_hyper_zmax_composed_def
        compose_defines_def parse_directive_def split_name_value_def dict_setitem_def)
  have n: "count_list (defines platform_wanhao_dup4_hyper_zmax) ''USE_ZMAX_HOME'' = 2"
    by (simp add: platform_wanhao_dup4_hyper_zmax_def)
  have k: "count_list (dict_keys wanhao_dup4_hyper_zmax_composed) ''USE_ZMAX_HOME'' = 1"
    by (simp add: wanhao_dup4_hyper_zmax_composed_def dict_keys_def)
  have e: "(''PLATFORM_TOOLHEAD_OFFSET_X'', Some ''3201'') \<in> set wanhao_dup4_hyper_zmax_composed"
    by (simp add: wanhao_dup4_hyper_zmax_composed_def)
  show ?thesis
    using c n k e
      composed_names_unique [OF c, of "''PLATFORM_TOOLHEAD_OFFSET_X''" "Some ''3201''"]
    by simp
qed

section \<open>Properties of resolution\<close>

lemma split_name_empty:
  "fst (split_name_value s) = [] \<longleftrightarrow> s = [] \<or> hd s = CHR ''=''"
  by (cases s) (simp_all add: split_name_value_def)

lemma parse_defined_iff:
  "parse_directive d \<noteq> None \<longleftrightarrow>
     d \<noteq> [] \<and> hd d \<noteq> CHR ''='' \<and>
     (hd d = CHR ''-'' \<longrightarrow> tl d \<noteq> [] \<and> hd (tl d) \<noteq> CHR ''='')"
proof (cases d)
  case Nil
  then show ?thesis by (simp add: parse_directive_def)
next
  case (Cons c rest)
  show ?thesis
    using split_name_empty [of rest] split_name_empty [of d]
    by (auto simp: parse_directive_def Cons split: prod.splits)
qed

lemma parse_some_iff:
  "(\<exists>x. parse_directive d = Some x) \<longleftrightarrow>
     d \<noteq> [] \<and> hd d \<noteq> CHR ''='' \<and>
     (hd d = CHR ''-'' \<longrightarrow> tl d \<noteq> [] \<and> hd (tl d) \<noteq> CHR ''='')"
  using parse_defined_iff [of d] by auto

lemma compose_from_succeeds:
  "(\<exists>m. compose_from i ds m0 = Inr m) \<longleftrightarrow> list_all (\<lambda>d. parse_directive d \<noteq> None) ds"
  by (induction ds arbitrary: i m0) (auto split: option.splits)

lemma compose_succeeds:
  "(\<exists>m. compose_defines ds = Inr m) \<longleftrightarrow> list_all (\<lambda>d. parse_directive d \<noteq> None) ds"
  by (simp add: compose_defines_def compose_from_succeeds)

lemma resolve_present:
  "map_of reg pid = Some p \<Longrightarrow> compose_defines (defines p) = Inr m \<Longrightarrow>
   resolve reg pid =
     Inr \<lparr>res_mcu = mcu p, res_programmer = programmer p,
          res_boardDirectory = board_directory p, composedDefines = m,
          res_squeeze = squeeze p\<rparr>"
  by (simp add: resolve_def)

lemma builtin_profiles_wellformed:
  "list_all (\<lambda>(k, p). mcu p \<noteq> [] \<and> programmer p \<noteq> [] \<and> board_directory p \<noteq> [] \<and>
      list_all (\<lambda>d. parse_directive d \<noteq> None) (defines p)) platforms_literal"
  unfolding platforms_literal_def by (simp add: platform_defs parse_some_iff)

text \<open>
  C5: for every id of the built-in registry, resolution succeeds, and the processor,
  the programmer and the board directory of the resolved profile are non-empty strings.
\<close>

theorem builtin_platforms_resolve:
  "\<forall>pid \<in> set (dict_keys platforms).
     \<exists>r. resolve platforms pid = Inr r \<and>
         res_mcu r \<noteq> [] \<and> res_programmer r \<noteq> [] \<and> res_boardDirectory r \<noteq> []"
proof
  fix pid
  assume "pid \<in> set (dict_keys platforms)"
  then obtain p where p: "map_of platforms pid = Some p"
    using key_has_value by fastforce
  then have "(pid, p) \<in> set platforms_literal"
    unfolding platforms_def by (rule dict_literal_lookup)
  with builtin_profiles_wellformed
  have ok: "mcu p \<noteq> [] \<and> programmer p \<noteq> [] \<and> board_directory p \<noteq> []"
    and wf: "list_all (\<lambda>d. parse_directive d \<noteq> None) (defines p)"
    by (auto simp: list_all_iff)
  from wf obtain m where "compose_defines (defines p) = Inr m"
    using compose_succeeds by blast
  with p ok show "\<exists>r. resolve platforms pid = Inr r \<and>
         res_mcu r \<noteq> [] \<and> res_programmer r \<noteq> [] \<and> res_boardDirectory r \<noteq> []"
    by (simp add: resolve_present)
qed

theorem builtin_platforms_resolve_witness:
  "''mighty_one-2560'' \<in> set (dict_keys platforms) \<and>
   (\<exists>r. resolve platforms ''mighty_one-2560'' = Inr r \<and>
        res_mcu r \<noteq> [] \<and> res_programmer r \<noteq> [] \<and> res_boardDirectory r \<noteq> [])"
proof -
  have k: "''mighty_one-2560'' \<in> set (dict_keys platforms)"
    unfolding platforms_def dict_literal_keys platforms_literal_def by simp
  show ?thesis
    using k builtin_platforms_resolve [THEN bspec, OF k] by simp
qed

text \<open>
  C6, as stated, fails: resolution does not succeed for every id that is present. A
  platform whose defines hold a directive with an empty name is in the registry, and
  resolving it fails with \<^verbatim>\<open>InvalidDefineError\<close>.
\<close>

theorem present_platform_may_fail:
  "''odd-board'' \<in> set (dict_keys unnamed_define_registry) \<and>
   resolve unnamed_define_registry ''odd-board'' = Inl (InvalidDefineError ''=1'' 1)"
  by (simp add: unnamed_define_registry_def dict_keys_def resolve_def compose_defines_def
      parse_directive_def split_name_value_def dict_setitem_def)

lemma compose_from_fails:
  "\<not> list_all (\<lambda>d. parse_directive d \<noteq> None) ds \<Longrightarrow>
   \<exists>j. j < length ds \<and> parse_directive (ds ! j) = None \<and>
       list_all (\<lambda>d. parse_directive d \<noteq> None) (take j ds) \<and>
       compose_from i ds m0 = Inl (InvalidDefineError (ds ! j) (i + j))"
proof (induction ds arbitrary: i m0)
  case Nil
  then show ?case by simp
next
  case (Cons d ds)
  show ?case
  proof (cases "parse_directive d")
    case None
    then have "0 < length (d # ds) \<and> parse_directive ((d # ds) ! 0) = None \<and>
        list_all (\<lambda>d. parse_directive d \<noteq> None) (take 0 (d # ds)) \<and>
        compose_from i (d # ds) m0 = Inl (InvalidDefineError ((d # ds) ! 0) (i + 0))"
      by simp
    then show ?thesis by blast
  next
    case (Some x)
    with Cons.prems have "\<not> list_all (\<lambda>d. parse_directive d \<noteq> None) ds" by simp
    from Cons.IH [OF this, of "Suc i" "apply_directive x m0"]
    obtain j where j: "j < length ds" "parse_directive (ds ! j) = None"
      "list_all (\<lambda>d. parse_directive d \<noteq> None) (take j ds)"
      "compose_from (Suc i) ds (apply_directive x m0) = Inl (InvalidDefineError (ds ! j) (Suc i + j))"
      by blast
    with Some have "Suc j < length (d # ds) \<and> parse_directive ((d # ds) ! Suc j) = None \<and>
        list_all (\<lambda>d. parse_directive d \<noteq> None) (take (Suc j) (d # ds)) \<and>
        compose_from i (d # ds) m0 = Inl (InvalidDefineError ((d # ds) ! Suc j) (i + Suc j))"
      by simp
    then show ?thesis by blast
  qed
qed

text \<open>
  C6, amended: resolution fails with \<^verbatim>\<open>UnknownPlatformError\<close> for every id that is not
  in the merged registry, and with an error of that kind for no id that is present. It
  succeeds exactly when the id is present and every directive of its defines is
  well-formed, and then returns the fields of the stored profile with the composed
  defines. For a present id with a malformed directive it fails with
  \<^verbatim>\<open>InvalidDefineError\<close>, naming the first malformed directive and its position.
\<close>

theorem resolve_outcome:
  "(pid \<notin> set (dict_keys reg) \<longrightarrow> resolve reg pid = Inl (UnknownPlatformError pid)) \<and>
   (pid \<in> set (dict_keys reg) \<longrightarrow> (\<forall>x. resolve reg pid \<noteq> Inl (UnknownPlatformError x))) \<and>
   ((\<exists>r. resolve reg pid = Inr r) \<longleftrightarrow>
      (\<exists>p. map_of reg pid = Some p \<and>
           list_all (\<lambda>d. parse_directive d \<noteq> None) (defines p))) \<and>
   (map_of reg pid = Some p \<and> list_all (\<lambda>d. parse_directive d \<noteq> None) (defines p) \<longrightarrow>
      (\<exists>m. compose_defines (defines p) = Inr m \<and>
           resolve reg pid =
             Inr \<lparr>res_mcu = mcu p, res_programmer = programmer p,
                  res_boardDirectory = board_directory p, composedDefines = m,
                  res_squeeze = squeeze p\<rparr>)) \<and>
   (map_of reg pid = Some p \<and> \<not> list_all (\<lambda>d. parse_directive d \<noteq> None) (defines p) \<longrightarrow>
      (\<exists>i. i < length (defines p) \<and> parse_directive (defines p ! i) = None \<and>
           list_all (\<lambda>d. parse_directive d \<noteq> None) (take i (defines p)) \<and>
           resolve reg pid = Inl (InvalidDefineError (defines p ! i) i)))"
proof -
  have absent: "resolve reg pid = Inl (UnknownPlatformError pid)"
    if "pid \<notin> set (dict_keys reg)"
  proof -
    from that have "map_of reg pid = None"
      using value_has_key [of reg pid] by (cases "map_of reg pid") auto
    then show ?thesis by (simp add: resolve_def)
  qed
  have good: "\<exists>m. compose_defines (defines q) = Inr m \<and>
      resolve reg pid =
        Inr \<lparr>res_mcu = mcu q, res_programmer = programmer q,
             res_boardDirectory = board_directory q, composedDefines = m,
             res_squeeze = squeeze q\<rparr>"
    if "map_of reg pid = Some q" "list_all (\<lambda>d. parse_directive d \<noteq> None) (defines q)" for q
  proof -
    from that(2) obtain m where "compose_defines (defines q) = Inr m"
      using compose_succeeds by blast
    with that(1) show ?thesis by (simp add: resolve_present)
  qed
  have bad: "\<exists>i. i < length (defines q) \<and> parse_directive (defines q ! i) = None \<and>
      list_all (\<lambda>d. parse_directive d \<noteq> None) (take i (defines q)) \<and>
      resolve reg pid = Inl (InvalidDefineError (defines q ! i) i)"
    if "map_of reg pid = Some q" "\<not> list_all (\<lambda>d. parse_directive d \<noteq> None) (defines q)" for q
    using compose_from_fails [OF that(2), of 0 "[]"] that(1)
    by (auto simp: resolve_def compose_defines_def)
  have known: "resolve reg pid \<noteq> Inl (UnknownPlatformError x)"
    if "pid \<in> set (dict_keys reg)" for x
  proof -
    from that obtain q where q: "map_of reg pid = Some q"
      using key_has_value by fastforce
    show ?thesis
    proof (cases "list_all (\<lambda>d. parse_directive d \<noteq> None) (defines q)")
      case True
      from good [OF q True] show ?thesis by auto
    next
      case False
      from bad [OF q False] show ?thesis by auto
    qed
  qed
  have iff: "(\<exists>r. resolve reg pid = Inr r) \<longleftrightarrow>
      (\<exists>q. map_of reg pid = Some q \<and> list_all (\<lambda>d. parse_directive d \<noteq> None) (defines q))"
  proof
    assume "\<exists>r. resolve reg pid = Inr r"
    then obtain r where r: "resolve reg pid = Inr r" ..
    then obtain q where q: "map_of reg pid = Some q"
      by (cases "map_of reg pid") (simp_all add: resolve_def)
    have "list_all (\<lambda>d. parse_directive d \<noteq> None) (defines q)"
    proof (rule ccontr)
      assume "\<not> list_all (\<lambda>d. parse_directive d \<noteq> None) (defines q)"
      from bad [OF q this] r show False by auto
    qed
    with q show "\<exists>q. map_of reg pid = Some q \<and>
        list_all (\<lambda>d. parse_directive d \<noteq> None) (defines q)" by blast
  next
    assume "\<exists>q. map_of reg pid = Some q \<and>
        list_all (\<lambda>d. parse_directive d \<noteq> None) (defines q)"
    then obtain q where "map_of reg pid = Some q"
      "list_all (\<lambda>d. parse_directive d \<noteq> None) (defines q)" by blast
    from good [OF this] show "\<exists>r. resolve reg pid = Inr r" by blast
  qed
  from absent known iff good [of p] bad [of p] show ?thesis by blast
qed

theorem resolve_outcome_witness:
  "''nonexistent-id'' \<notin> set (dict_keys platforms) \<and>
   resolve platforms ''nonexistent-id'' = Inl (UnknownPlatformError ''nonexistent-id'') \<and>
   ''odd-board'' \<in> set (dict_keys unnamed_define_registry) \<and>
   map_of unnamed_define_registry ''odd-board''
     = Some \<lparr>mcu = ''atmega1280'', programmer = ''stk500v1'', board_directory = ''mighty_one'',
             defines = [''BUILD_STATS'', ''=1''], squeeze = None\<rparr> \<and>
   \<not> list_all (\<lambda>d. parse_directive d \<noteq> None) [''BUILD_STATS'', ''=1''] \<and>
   resolve unnamed_define_registry ''odd-board'' \<noteq> Inl (UnknownPlatformError ''odd-board'') \<and>
   (\<exists>i. i < length [''BUILD_STATS'', ''=1''] \<and>
        resolve unnamed_define_registry ''odd-board''
          = Inl (InvalidDefineError ([''BUILD_STATS'', ''=1''] ! i) i)) \<and>
   map_of small_extension ''X'' = Some profile_m2 \<and>
   list_all (\<lambda>d. parse_directive d \<noteq> None) (defines profile_m2) \<and>
   (\<exists>m. compose_defines (defines profile_m2) = Inr m \<and>
        resolve small_extension ''X'' =
          Inr \<lparr>res_mcu = ''m2'', res_programmer = ''p2'', res_boardDirectory = ''b2'',
               composedDefines = m, res_squeeze = None\<rparr>)"
proof -
  have k: "''nonexistent-id'' \<notin> set (dict_keys platforms)"
    unfolding platforms_def dict_literal_keys platforms_literal_def by simp
  have o: "''odd-board'' \<in> set (dict_keys unnamed_define_registry)"
    by (simp add: unnamed_define_registry_def dict_keys_def)
  have m: "map_of unnamed_define_registry ''odd-board''
     = Some \<lparr>mcu = ''atmega1280'', programmer = ''stk500v1'', board_directory = ''mighty_one'',
             defines = [''BUILD_STATS'', ''=1''], squeeze = None\<rparr>"
    by (simp add: unnamed_define_registry_def)
  have b: "\<not> list_all (\<lambda>d. parse_directive d \<noteq> None) [''BUILD_STATS'', ''=1'']"
    by (simp add: parse_some_iff)
  have x: "map_of small_extension ''X'' = Some profile_m2"
    by (simp add: small_extension_def)
  have g: "list_all (\<lambda>d. parse_directive d \<noteq> None) (defines profile_m2)"
    by (simp add: profile_m2_def parse_some_iff)
  show ?thesis
    using k o m b x g
      resolve_outcome [of "''nonexistent-id''" platforms profile_m2]
      resolve_outcome [of "''odd-board''" unnamed_define_registry
        "\<lparr>mcu = ''atmega1280'', programmer = ''stk500v1'', board_directory = ''mighty_one'',
          defines = [''BUILD_STATS'', ''=1''], squeeze = None\<rparr>"]
      resolve_outcome [of "''X''" small_extension profile_m2]
    by (simp add: profile_m2_def) blast
qed

end
